theory Spec2Isabelle
  imports Main "HOL-Library.Word" "HOL-Library.Char_ord" "HOL-Library.List_Lexorder"
begin

section \<open>Wire codec (pkg/wprotocol/protocol.go)\<close>

text \<open>
  Go strings and byte slices are sequences of bytes; both are modelled as \<open>string\<close>
  (a list of 8-bit characters). A nil slice and an empty slice are both the empty list.
\<close>

type_synonym bytes = string

definition UnitSeparator :: char where
  "UnitSeparator = CHR 0x1F"

definition RecordSeparator :: char where
  "RecordSeparator = CHR 0x1E"

datatype error = ErrInvalidPacket

type_synonym OpCode = "8 word"

definition OpMsgSend :: OpCode where "OpMsgSend = 1"
definition OpMsgDeliver :: OpCode where "OpMsgDeliver = 2"
definition OpMsgEdit :: OpCode where "OpMsgEdit = 3"
definition OpMsgEdited :: OpCode where "OpMsgEdited = 4"
definition OpMsgDelete :: OpCode where "OpMsgDelete = 5"
definition OpMsgDeleted :: OpCode where "OpMsgDeleted = 6"
definition OpMsgRead :: OpCode where "OpMsgRead = 7"
definition OpMsgStatusUpdate :: OpCode where "OpMsgStatusUpdate = 8"
definition OpNotifyRoomAdded :: OpCode where "OpNotifyRoomAdded = 13"
definition OpFriendRequestReceived :: OpCode where "OpFriendRequestReceived = 15"
definition OpFriendRequestAccepted :: OpCode where "OpFriendRequestAccepted = 16"
definition OpWebRTCSignal :: OpCode where "OpWebRTCSignal = 20"
definition OpError :: OpCode where "OpError = 255"

record Packet =
  Op :: OpCode
  Payload :: "string list"

subsection \<open>The library functions the codec calls\<close>

text \<open>
  \<open>strconv.ParseUint(s, 10, bitSize)\<close>: the empty string and every byte that is not a
  decimal digit are syntax errors; a value above \<open>2^bitSize - 1\<close> is a range error. The
  accumulator is a \<open>uint64\<close>: its wrap-around is written out. An error comes with the
  value Go returns beside it (0, or the largest value on a range error).
\<close>

datatype NumError = ErrSyntax | ErrRange

definition is_digit :: "char \<Rightarrow> bool" where
  "is_digit c = (48 \<le> (of_char c :: int) \<and> (of_char c :: int) \<le> 57)"

definition digit_val :: "char \<Rightarrow> int" where
  "digit_val c = of_char c - 48"

fun ParseUint_loop :: "int \<Rightarrow> int \<Rightarrow> string \<Rightarrow> int \<Rightarrow> (NumError \<times> int) + int" where
  "ParseUint_loop cutoff maxVal [] n = Inr n"
| "ParseUint_loop cutoff maxVal (c # cs) n =
     (if \<not> is_digit c then Inl (ErrSyntax, 0)
      else if cutoff \<le> n then Inl (ErrRange, maxVal)
      else let n10 = (n * 10) mod 2 ^ 64;
               n1 = (n10 + digit_val c) mod 2 ^ 64
           in if n1 < n10 \<or> maxVal < n1 then Inl (ErrRange, maxVal)
              else ParseUint_loop cutoff maxVal cs n1)"

definition ParseUint :: "string \<Rightarrow> nat \<Rightarrow> (NumError \<times> int) + int" where
  "ParseUint s bitSize =
     (if s = [] then Inl (ErrSyntax, 0)
      else ParseUint_loop ((2 ^ 64 - 1) div 10 + 1) (2 ^ bitSize - 1) s 0)"

text \<open>\<open>strconv.Itoa\<close> and \<open>strconv.FormatInt(i, 10)\<close>: a minus sign, then the decimal digits.\<close>

definition digit_char :: "int \<Rightarrow> char" where
  "digit_char d = char_of (48 + d)"

function digits :: "int \<Rightarrow> string" where
  "digits n = (if n < 10 then [digit_char n] else digits (n div 10) @ [digit_char (n mod 10)])"
  by pat_completeness auto
termination
  by (relation "measure nat") auto

declare digits.simps [simp del]

definition Itoa :: "int \<Rightarrow> string" where
  "Itoa i = (if i < 0 then CHR ''-'' # digits (- i) else digits i)"

text \<open>
  \<open>bytes.SplitN(data, sep, 2)\<close> for a one-byte separator: cut at the first separator,
  or the whole input as the only part.
\<close>

definition SplitN2 :: "bytes \<Rightarrow> char \<Rightarrow> bytes list" where
  "SplitN2 s sep =
     (if sep \<in> set s
      then [takeWhile (\<lambda>c. c \<noteq> sep) s, tl (dropWhile (\<lambda>c. c \<noteq> sep) s)]
      else [s])"

text \<open>\<open>strings.Split(s, sep)\<close> for a one-byte separator: cut at every separator.\<close>

function Split :: "string \<Rightarrow> char \<Rightarrow> string list" where
  "Split s sep =
     (if sep \<in> set s
      then takeWhile (\<lambda>c. c \<noteq> sep) s # Split (tl (dropWhile (\<lambda>c. c \<noteq> sep) s)) sep
      else [s])"
  by pat_completeness auto
termination
proof (relation "measure (\<lambda>(s, sep). length s)")
  show "wf (measure (\<lambda>(s, sep). length s))" by simp
next
  fix s :: string and sep :: char
  assume "sep \<in> set s"
  then have "dropWhile (\<lambda>c. c \<noteq> sep) s \<noteq> []" by (simp add: dropWhile_eq_Nil_conv)
  moreover have "length (dropWhile (\<lambda>c. c \<noteq> sep) s) \<le> length s"
    by (rule length_dropWhile_le)
  ultimately show "((tl (dropWhile (\<lambda>c. c \<noteq> sep) s), sep), (s, sep)) \<in> measure (\<lambda>(s, sep). length s)"
    by (cases "dropWhile (\<lambda>c. c \<noteq> sep) s") auto
qed

declare Split.simps [simp del]

text \<open>\<open>strings.Join(elems, sep)\<close>.\<close>

fun Join :: "string list \<Rightarrow> string \<Rightarrow> string" where
  "Join [] sep = []"
| "Join [x] sep = x"
| "Join (x # y # ys) sep = x @ sep @ Join (y # ys) sep"

subsection \<open>Parse and Build\<close>

definition Parse :: "bytes \<Rightarrow> error + Packet" where
  "Parse data =
     (let parts = SplitN2 data UnitSeparator
      in if length parts < 1 \<or> length (parts ! 0) = 0 then Inl ErrInvalidPacket
         else case ParseUint (parts ! 0) 8 of
                Inl e \<Rightarrow> Inl ErrInvalidPacket
              | Inr op \<Rightarrow>
                  Inr \<lparr>Op = of_int op,
                       Payload = (if length parts = 2 then Split (parts ! 1) RecordSeparator else [])\<rparr>)"

definition Build :: "OpCode \<Rightarrow> string list \<Rightarrow> bytes" where
  "Build op params = Itoa (uint op) @ [UnitSeparator] @ Join params [RecordSeparator]"


text \<open>
  \<open>strconv.ParseInt(s, 10, 64)\<close>: an optional sign, then \<open>ParseUint\<close>; a syntax
  error gives 0, a value out of the \<open>int64\<close> range gives the nearest bound with a range
  error. The first component is the value Go returns, the second says whether the error
  is non-nil.
\<close>

definition ParseInt :: "string \<Rightarrow> int \<times> bool" where
  "ParseInt s =
     (if s = [] then (0, True)
      else let neg = (hd s = CHR ''-'');
               s1 = (if hd s = CHR ''+'' \<or> hd s = CHR ''-'' then tl s else s);
               cutoff = 2 ^ 63
           in case ParseUint s1 64 of
                Inl (ErrSyntax, v) \<Rightarrow> (0, True)
              | Inl (ErrRange, un) \<Rightarrow>
                  (if \<not> neg \<and> cutoff \<le> un then (cutoff - 1, True)
                   else if neg \<and> cutoff < un then (- cutoff, True)
                   else (if neg then - un else un, False))
              | Inr un \<Rightarrow>
                  (if \<not> neg \<and> cutoff \<le> un then (cutoff - 1, True)
                   else if neg \<and> cutoff < un then (- cutoff, True)
                   else (if neg then - un else un, False)))"

section \<open>Domain types (internal/domain) and the schema (db/init.sql)\<close>

text \<open>
  A \<open>uuid.UUID\<close> is an array of 16 bytes, read here as one 128-bit word (byte 0 is the
  most significant). A timestamp is a point on an integer time line.
\<close>

type_synonym uuid = "128 word"
type_synonym time = int

definition uuid_Nil :: uuid where
  "uuid_Nil = 0"

text \<open>\<open>UUID.String()\<close>: 32 lower-case hexadecimal digits, grouped 8-4-4-4-12.\<close>

definition hex_digit :: "nat \<Rightarrow> char" where
  "hex_digit n = ''0123456789abcdef'' ! (n mod 16)"

definition uuid_hex :: "uuid \<Rightarrow> string" where
  "uuid_hex u = map (\<lambda>i. hex_digit (unat (drop_bit (4 * (31 - i)) u))) [0..<32]"

definition uuid_String :: "uuid \<Rightarrow> string" where
  "uuid_String u =
     (let h = uuid_hex u
      in take 8 h @ ''-'' @ take 4 (drop 8 h) @ ''-'' @ take 4 (drop 12 h) @ ''-'' @
         take 4 (drop 16 h) @ ''-'' @ drop 20 h)"

text \<open>
  \<open>uuid.Parse\<close> and \<open>time.Format(time.RFC3339Nano)\<close> are library functions whose
  results the dispatcher only passes on; they are parameters of the model. \<open>uuid.Parse\<close>
  returns a value beside its error, and the dispatcher sometimes ignores the error, so the
  parameter returns both (the flag is true when the error is non-nil).
\<close>

record lib =
  uuid_Parse :: "string \<Rightarrow> uuid \<times> bool"
  time_Format :: "time \<Rightarrow> string"

record User =
  user_ID :: uuid
  Email :: "string option"
  Username :: string
  Nickname :: string
  user_CreatedAt :: time

record Friendship =
  UserOneID :: uuid
  UserTwoID :: uuid
  Status :: string
  ActionUserID :: uuid
  fs_CreatedAt :: time
  fs_UpdatedAt :: time

record Room =
  room_ID :: uuid
  room_Type :: string
  room_Name :: "string option"
  room_OwnerID :: "uuid option"
  room_CreatedAt :: time
  room_UpdatedAt :: time

record RoomParticipant =
  p_room_id :: uuid
  p_user_id :: uuid
  role :: string
  joined_at :: time
  is_blocked :: bool

record Message =
  ID :: int
  MessageUID :: uuid
  RoomID :: uuid
  UserID :: uuid
  Content :: string
  ReplyToMessageID :: "int option"
  CreatedAt :: time
  UpdatedAt :: "time option"
  DeletedAt :: "time option"

record MessageReadStatus =
  message_id :: int
  rs_user_id :: uuid
  read_at :: time

text \<open>
  The store: one list of rows per table, and the last value of the \<open>bigserial\<close>
  sequence behind \<open>messages.id\<close>. A nullable column is an \<open>option\<close>.
\<close>

record db =
  users :: "User list"
  friendships :: "Friendship list"
  rooms :: "Room list"
  room_participants :: "RoomParticipant list"
  messages :: "Message list"
  message_read_status :: "MessageReadStatus list"
  messages_id_seq :: int

text \<open>
  What the store generates for a statement: the value of \<open>NOW()\<close> (and of Go's
  \<open>time.Now()\<close>) and the value of \<open>uuid_generate_v4()\<close>.
\<close>

record gen =
  now :: time
  new_uuid :: uuid

definition COALESCE :: "'a option \<Rightarrow> 'a option \<Rightarrow> 'a option" where
  "COALESCE a b = (case a of Some x \<Rightarrow> Some x | None \<Rightarrow> b)"

definition user_exists :: "db \<Rightarrow> uuid \<Rightarrow> bool" where
  "user_exists d u = list_ex (\<lambda>r. user_ID r = u) (users d)"

definition room_exists :: "db \<Rightarrow> uuid \<Rightarrow> bool" where
  "room_exists d r = list_ex (\<lambda>x. room_ID x = r) (rooms d)"

definition message_exists :: "db \<Rightarrow> int \<Rightarrow> bool" where
  "message_exists d i = list_ex (\<lambda>m. ID m = i) (messages d)"

section \<open>The repository (internal/repository/app_repo.go)\<close>

text \<open>
  Every repository function makes one call to the store. The call can fail for a reason
  this model does not compute (a lost connection, a cancelled context, a row that does
  not scan into the Go struct): such a failure is an argument of the function, so that
  every theorem ranges over it. What the schema of \<open>init.sql\<close> decides (primary keys,
  \<open>UNIQUE\<close>, \<open>CHECK\<close>, foreign keys, cascades) is computed. A Go \<open>error\<close> result
  is a flag, true when the error is non-nil.

  A lookup by \<open>pgx.CollectOneRow\<close> has three ways out in the source: the query fails
  (\<open>nil, err\<close>), no row is found (\<open>nil, nil\<close>, or an error for \<open>GetRoomByID\<close>),
  or a pointer to a struct comes back with whatever error the collection gave.
\<close>

datatype 'a fault = NoFault | QueryFault | CollectFault 'a

definition UpsertUser :: "bool \<Rightarrow> User \<Rightarrow> db \<Rightarrow> uuid \<Rightarrow> string option \<Rightarrow> string option \<Rightarrow> bool \<times> db" where
  \<comment> \<open>The \<open>CREATE TABLE users\<close> is not in \<open>init.sql\<close>: the defaults of the columns the
      \<open>INSERT\<close> does not name come with the argument \<open>dflt\<close>.\<close>
  "UpsertUser err dflt d ident email nickname =
     (if err then (True, d)
      else if user_exists d ident
      then (False, d\<lparr>users :=
              map (\<lambda>u. if user_ID u = ident then u\<lparr>Email := COALESCE (Email u) email\<rparr> else u) (users d)\<rparr>)
      else (False, d\<lparr>users := users d @ [dflt\<lparr>user_ID := ident, Email := email\<rparr>]\<rparr>))"

definition GetUserByID :: "User fault \<Rightarrow> db \<Rightarrow> uuid \<Rightarrow> User option \<times> bool" where
  "GetUserByID f d ident =
     (case f of
        QueryFault \<Rightarrow> (None, True)
      | CollectFault u \<Rightarrow> (Some u, True)
      | NoFault \<Rightarrow>
          (case find (\<lambda>u. user_ID u = ident) (users d) of
             None \<Rightarrow> (None, False)
           | Some u \<Rightarrow> (Some u, False)))"

definition valid_status :: "string \<Rightarrow> bool" where
  "valid_status s = (s = ''pending'' \<or> s = ''accepted'' \<or> s = ''blocked'')"

definition CreateFriendship :: "bool \<Rightarrow> gen \<Rightarrow> db \<Rightarrow> Friendship \<Rightarrow> bool \<times> db" where
  "CreateFriendship err g d fs =
     (if err then (True, d)
      else if list_ex (\<lambda>r. UserOneID r = UserOneID fs \<and> UserTwoID r = UserTwoID fs) (friendships d)
              \<or> \<not> UserOneID fs < UserTwoID fs \<or> \<not> valid_status (Status fs)
              \<or> \<not> user_exists d (UserOneID fs) \<or> \<not> user_exists d (UserTwoID fs)
              \<or> \<not> user_exists d (ActionUserID fs)
      then (True, d)
      else (False, d\<lparr>friendships := friendships d @
              [fs\<lparr>fs_CreatedAt := now g, fs_UpdatedAt := now g\<rparr>]\<rparr>))"

definition UpdateFriendshipStatus :: "bool \<Rightarrow> gen \<Rightarrow> db \<Rightarrow> Friendship \<Rightarrow> bool \<times> db" where
  "UpdateFriendshipStatus err g tx fs =
     (if err then (True, tx)
      else if list_ex (\<lambda>r. UserOneID r = UserOneID fs \<and> UserTwoID r = UserTwoID fs) (friendships tx)
              \<and> (\<not> valid_status (Status fs) \<or> \<not> user_exists tx (ActionUserID fs))
      then (True, tx)
      else (False, tx\<lparr>friendships :=
              map (\<lambda>r. if UserOneID r = UserOneID fs \<and> UserTwoID r = UserTwoID fs
                        then r\<lparr>Status := Status fs, ActionUserID := ActionUserID fs, fs_UpdatedAt := now g\<rparr>
                        else r) (friendships tx)\<rparr>))"

definition GetFriendship :: "Friendship fault \<Rightarrow> db \<Rightarrow> uuid \<Rightarrow> uuid \<Rightarrow> Friendship option \<times> bool" where
  "GetFriendship f d userOneID userTwoID =
     (let one = (if uuid_String userOneID > uuid_String userTwoID then userTwoID else userOneID);
          two = (if uuid_String userOneID > uuid_String userTwoID then userOneID else userTwoID)
      in case f of
           QueryFault \<Rightarrow> (None, True)
         | CollectFault fs \<Rightarrow> (Some fs, True)
         | NoFault \<Rightarrow>
             (case find (\<lambda>r. UserOneID r = one \<and> UserTwoID r = two) (friendships d) of
                None \<Rightarrow> (None, False)
              | Some fs \<Rightarrow> (Some fs, False)))"

definition DeleteFriendship :: "bool \<Rightarrow> db \<Rightarrow> uuid \<Rightarrow> uuid \<Rightarrow> bool \<times> db" where
  "DeleteFriendship err d userOneID userTwoID =
     (let one = (if uuid_String userOneID > uuid_String userTwoID then userTwoID else userOneID);
          two = (if uuid_String userOneID > uuid_String userTwoID then userOneID else userTwoID)
      in if err then (True, d)
         else (False, d\<lparr>friendships :=
                 filter (\<lambda>r. \<not> (UserOneID r = one \<and> UserTwoID r = two)) (friendships d)\<rparr>))"

definition IsUserInRoom :: "bool \<Rightarrow> db \<Rightarrow> uuid \<Rightarrow> uuid \<Rightarrow> bool \<times> bool" where
  "IsUserInRoom err d userID roomID =
     (if err then (False, True)
      else (list_ex (\<lambda>p. p_user_id p = userID \<and> p_room_id p = roomID \<and> is_blocked p = False)
              (room_participants d), False))"

definition valid_room_type :: "string \<Rightarrow> bool" where
  "valid_room_type t = (t = ''private'' \<or> t = ''group'')"

definition CreateRoom :: "bool \<Rightarrow> gen \<Rightarrow> db \<Rightarrow> Room \<Rightarrow> (Room \<times> bool) \<times> db" where
  "CreateRoom err g tx room =
     (if err then ((room, True), tx)
      else if room_exists tx (new_uuid g) \<or> \<not> valid_room_type (room_Type room)
              \<or> (case room_OwnerID room of None \<Rightarrow> False | Some u \<Rightarrow> \<not> user_exists tx u)
      then ((room, True), tx)
      else let room' = room\<lparr>room_ID := new_uuid g, room_CreatedAt := now g, room_UpdatedAt := now g\<rparr>
           in ((room', False), tx\<lparr>rooms := rooms tx @ [room']\<rparr>))"

definition AddUserToRoom :: "bool \<Rightarrow> gen \<Rightarrow> db \<Rightarrow> uuid \<Rightarrow> uuid \<Rightarrow> bool \<times> db" where
  "AddUserToRoom err g tx userID roomID =
     (if err then (True, tx)
      else if list_ex (\<lambda>p. p_room_id p = roomID \<and> p_user_id p = userID) (room_participants tx)
              \<or> \<not> room_exists tx roomID \<or> \<not> user_exists tx userID
      then (True, tx)
      else (False, tx\<lparr>room_participants := room_participants tx @
              [\<lparr>p_room_id = roomID, p_user_id = userID, role = ''member'',
                joined_at = now g, is_blocked = False\<rparr>]\<rparr>))"

text \<open>
  \<open>GetMessagesForRoom\<close>: the rows of the room that are not soft-deleted, newest first
  (rows with equal \<open>created_at\<close> in the order a stable sort leaves them), cut by
  \<open>LIMIT\<close> and \<open>OFFSET\<close> (PostgreSQL rejects a negative one), then reversed in place
  by the two-index loop of the source.
\<close>

function reverse_loop :: "'a list \<Rightarrow> int \<Rightarrow> int \<Rightarrow> 'a list" where
  "reverse_loop ms i j =
     (if i < j
      then reverse_loop (ms[nat i := ms ! nat j, nat j := ms ! nat i]) (i + 1) (j - 1)
      else ms)"
  by pat_completeness auto
termination
  by (relation "measure (\<lambda>(ms, i, j). nat (j - i))") auto

declare reverse_loop.simps [simp del]

definition select_messages :: "db \<Rightarrow> uuid \<Rightarrow> int \<Rightarrow> int \<Rightarrow> Message list" where
  "select_messages d roomID limit offset =
     take (nat limit) (drop (nat offset)
       (rev (sort_key CreatedAt
          (filter (\<lambda>m. RoomID m = roomID \<and> DeletedAt m = None) (messages d)))))"

definition GetMessagesForRoom :: "bool \<Rightarrow> db \<Rightarrow> uuid \<Rightarrow> int \<Rightarrow> int \<Rightarrow> Message list \<times> bool" where
  "GetMessagesForRoom err d roomID limit offset =
     (if err \<or> limit < 0 \<or> offset < 0 then ([], True)
      else let ms = select_messages d roomID limit offset
           in (reverse_loop ms 0 (int (length ms) - 1), False))"

text \<open>
  \<open>CreateMessage\<close>: the first parameter of the statement is the \<open>MessageUID\<close> field, a
  \<open>uuid.UUID\<close> value and not a pointer, so the store always receives a uuid and never
  \<open>NULL\<close>. The sequence behind \<open>id\<close> advances also when the insert is rejected.
\<close>

definition CreateMessage :: "bool \<Rightarrow> gen \<Rightarrow> db \<Rightarrow> Message \<Rightarrow> (Message \<times> bool) \<times> db" where
  "CreateMessage err g d msg =
     (if err then ((msg, True), d)
      else let new_id = messages_id_seq d + 1;
               uid = COALESCE (Some (MessageUID msg)) (Some (new_uuid g));
               d1 = d\<lparr>messages_id_seq := new_id\<rparr>
           in case uid of
                None \<Rightarrow> ((msg, True), d1)
              | Some u \<Rightarrow>
                  if message_exists d new_id \<or> list_ex (\<lambda>m. MessageUID m = u) (messages d)
                     \<or> \<not> room_exists d (RoomID msg) \<or> \<not> user_exists d (UserID msg)
                     \<or> (case ReplyToMessageID msg of None \<Rightarrow> False | Some r \<Rightarrow> \<not> message_exists d r)
                  then ((msg, True), d1)
                  else ((msg\<lparr>ID := new_id, MessageUID := u, CreatedAt := now g\<rparr>, False),
                        d1\<lparr>messages := messages d @
                           [\<lparr>ID = new_id, MessageUID = u, RoomID = RoomID msg, UserID = UserID msg,
                             Content = Content msg, ReplyToMessageID = ReplyToMessageID msg,
                             CreatedAt = now g, UpdatedAt = None, DeletedAt = None\<rparr>]\<rparr>))"

definition MarkMessageAsRead :: "bool \<Rightarrow> gen \<Rightarrow> db \<Rightarrow> int \<Rightarrow> uuid \<Rightarrow> (time \<times> bool) \<times> db" where
  "MarkMessageAsRead err g d messageID userID =
     (if err \<or> \<not> message_exists d messageID \<or> \<not> user_exists d userID then ((0, True), d)
      else if list_ex (\<lambda>r. message_id r = messageID \<and> rs_user_id r = userID) (message_read_status d)
      then ((now g, False), d\<lparr>message_read_status :=
              map (\<lambda>r. if message_id r = messageID \<and> rs_user_id r = userID then r\<lparr>read_at := now g\<rparr> else r)
                (message_read_status d)\<rparr>)
      else ((now g, False), d\<lparr>message_read_status := message_read_status d @
              [\<lparr>message_id = messageID, rs_user_id = userID, read_at = now g\<rparr>]\<rparr>))"

definition UpdateMessage :: "bool \<Rightarrow> gen \<Rightarrow> db \<Rightarrow> int \<Rightarrow> uuid \<Rightarrow> string \<Rightarrow> bool \<times> db" where
  "UpdateMessage err g d messageID userID newContent =
     (if err then (True, d)
      else if length (filter (\<lambda>m. ID m = messageID \<and> UserID m = userID) (messages d)) = 0
      then (True, d)
      else (False, d\<lparr>messages :=
              map (\<lambda>m. if ID m = messageID \<and> UserID m = userID
                        then m\<lparr>Content := newContent, UpdatedAt := Some (now g)\<rparr> else m)
                (messages d)\<rparr>))"

text \<open>
  \<open>DeleteMessage\<close>: a \<open>DELETE\<close> of the author's row. By the schema the read receipts
  of a deleted message go with it (\<open>ON DELETE CASCADE\<close>) and replies lose their
  reference (\<open>ON DELETE SET NULL\<close>).
\<close>

definition DeleteMessage :: "bool \<Rightarrow> db \<Rightarrow> int \<Rightarrow> uuid \<Rightarrow> bool \<times> db" where
  "DeleteMessage err d messageID userID =
     (if err then (True, d)
      else if length (filter (\<lambda>m. ID m = messageID \<and> UserID m = userID) (messages d)) = 0
      then (True, d)
      else (False, d\<lparr>messages :=
              map (\<lambda>m. if ReplyToMessageID m = Some messageID then m\<lparr>ReplyToMessageID := None\<rparr> else m)
                (filter (\<lambda>m. \<not> (ID m = messageID \<and> UserID m = userID)) (messages d)),
            message_read_status :=
              filter (\<lambda>r. message_id r \<noteq> messageID) (message_read_status d)\<rparr>))"

section \<open>The use cases (internal/usecase/app_usercase.go)\<close>

text \<open>
  The use cases talk to the hub through the \<open>Broadcaster\<close> interface. Each call is
  recorded, in order, as an effect.
\<close>

datatype effect =
    BroadcastToRoom uuid bytes
  | SendToUser uuid bytes
  | Subscribe uuid uuid

text \<open>
  A use case returns \<open>nil\<close> or an error, or panics on a nil pointer. An error is its
  message; where the source wraps the store's error with \<open>%w\<close>, the message is the
  text before it.
\<close>

datatype outcome = Returned "string option" | Panicked

definition UpdateUser :: "bool \<Rightarrow> User \<Rightarrow> db \<Rightarrow> uuid \<Rightarrow> string option \<Rightarrow> string option \<Rightarrow> bool \<times> db" where
  "UpdateUser err dflt d ident email nickname = UpsertUser err dflt d ident email nickname"

record accept_faults =
  get_friendship_fault :: "Friendship fault"
  begin_err :: bool
  update_friendship_err :: bool
  create_room_err :: bool
  add_accepter_err :: bool
  add_requester_err :: bool
  commit_err :: bool
  get_user_fault :: "User fault"

text \<open>
  \<open>AcceptFriendRequest\<close>. The transaction works on a copy of the store, which
  \<open>Commit\<close> makes the store; every other way out runs the deferred \<open>Rollback\<close>, which
  drops the copy.
\<close>

definition AcceptFriendRequest ::
  "accept_faults \<Rightarrow> gen \<Rightarrow> db \<Rightarrow> uuid \<Rightarrow> uuid \<Rightarrow> outcome \<times> db \<times> effect list" where
  "AcceptFriendRequest f g d accepterID requesterID =
     (case GetFriendship (get_friendship_fault f) d accepterID requesterID of
        (fso, err) \<Rightarrow>
     case (if err then None else fso) of
        None \<Rightarrow> (Returned (Some ''no pending friend request found''), d, [])
      | Some fs \<Rightarrow>
     if Status fs \<noteq> ''pending'' \<or> ActionUserID fs = accepterID
     then (Returned (Some ''invalid friend request state''), d, [])
     else if begin_err f
     then (Returned (Some ''could not begin transaction: ''), d, [])
     else
     case UpdateFriendshipStatus (update_friendship_err f) g d
            (fs\<lparr>Status := ''accepted'', ActionUserID := accepterID\<rparr>) of
        (err1, tx1) \<Rightarrow>
     if err1 then (Returned (Some ''failed to update friendship: ''), d, [])
     else
     case CreateRoom (create_room_err f) g tx1
            \<lparr>room_ID = uuid_Nil, room_Type = ''private'', room_Name = None, room_OwnerID = None,
             room_CreatedAt = 0, room_UpdatedAt = 0\<rparr> of
        ((createdRoom, err2), tx2) \<Rightarrow>
     if err2 then (Returned (Some ''failed to create private room: ''), d, [])
     else
     case AddUserToRoom (add_accepter_err f) g tx2 accepterID (room_ID createdRoom) of
        (err3, tx3) \<Rightarrow>
     if err3 then (Returned (Some ''failed to add accepter to room: ''), d, [])
     else
     case AddUserToRoom (add_requester_err f) g tx3 requesterID (room_ID createdRoom) of
        (err4, tx4) \<Rightarrow>
     if err4 then (Returned (Some ''failed to add requester to room: ''), d, [])
     else if commit_err f
     then (Returned (Some ''transaction commit failed: ''), d, [])
     else
     case fst (GetUserByID (get_user_fault f) tx4 accepterID) of
        None \<Rightarrow> (Panicked, tx4, [])
      | Some accepter \<Rightarrow>
          (Returned None, tx4,
           [SendToUser requesterID
              (Build OpFriendRequestAccepted
                 [uuid_String accepterID, Nickname accepter, uuid_String (room_ID createdRoom)]),
            Subscribe requesterID (room_ID createdRoom),
            SendToUser accepterID
              (Build OpNotifyRoomAdded [uuid_String (room_ID createdRoom), room_Type createdRoom, []]),
            Subscribe accepterID (room_ID createdRoom)]))"

subsection \<open>The dispatcher\<close>

record dispatch_faults =
  member_err :: bool
  store_err :: bool

definition checkMembership :: "bool \<Rightarrow> db \<Rightarrow> uuid \<Rightarrow> uuid \<Rightarrow> bool \<times> effect list" where
  "checkMembership err d senderID roomID =
     (case IsUserInRoom err d senderID roomID of
        (isMember, e) \<Rightarrow>
          if e then (False, [])
          else if \<not> isMember
          then (False, [SendToUser senderID (Build OpError [''Not a member of this room''])])
          else (True, []))"

definition handleSendMessage ::
  "lib \<Rightarrow> bool \<Rightarrow> gen \<Rightarrow> db \<Rightarrow> uuid \<Rightarrow> uuid \<Rightarrow> uuid \<Rightarrow> string \<Rightarrow> db \<times> effect list" where
  "handleSendMessage l err g d senderID roomID clientMsgUID content =
     (case CreateMessage err g d
             \<lparr>ID = 0, MessageUID = clientMsgUID, RoomID = roomID, UserID = senderID,
              Content = content, ReplyToMessageID = None, CreatedAt = 0, UpdatedAt = None,
              DeletedAt = None\<rparr> of
        ((createdMsg, e), d') \<Rightarrow>
          if e then (d', [])
          else (d', [BroadcastToRoom roomID
                       (Build OpMsgDeliver
                          [Itoa (ID createdMsg), uuid_String (MessageUID createdMsg),
                           uuid_String (RoomID createdMsg), uuid_String (UserID createdMsg),
                           time_Format l (CreatedAt createdMsg), Content createdMsg])]))"

definition handleEditMessage ::
  "bool \<Rightarrow> gen \<Rightarrow> db \<Rightarrow> uuid \<Rightarrow> int \<Rightarrow> uuid \<Rightarrow> string \<Rightarrow> db \<times> effect list" where
  "handleEditMessage err g d senderID msgID roomID newContent =
     (case UpdateMessage err g d msgID senderID newContent of
        (e, d') \<Rightarrow>
          if e then (d', [SendToUser senderID (Build OpError [''Failed to edit message''])])
          else (d', [BroadcastToRoom roomID
                       (Build OpMsgEdited [Itoa msgID, uuid_String roomID, newContent])]))"

definition handleDeleteMessage ::
  "bool \<Rightarrow> db \<Rightarrow> uuid \<Rightarrow> int \<Rightarrow> uuid \<Rightarrow> db \<times> effect list" where
  "handleDeleteMessage err d senderID msgID roomID =
     (case DeleteMessage err d msgID senderID of
        (e, d') \<Rightarrow>
          if e then (d', [SendToUser senderID (Build OpError [''Failed to delete message''])])
          else (d', [BroadcastToRoom roomID
                       (Build OpMsgDeleted [Itoa msgID, uuid_String roomID])]))"

definition handleReadMessage ::
  "lib \<Rightarrow> bool \<Rightarrow> gen \<Rightarrow> db \<Rightarrow> int \<Rightarrow> uuid \<Rightarrow> uuid \<Rightarrow> db \<times> effect list" where
  "handleReadMessage l err g d msgID userID roomID =
     (case MarkMessageAsRead err g d msgID userID of
        ((readAt, e), d') \<Rightarrow>
          if e then (d', [])
          else (d', [BroadcastToRoom roomID
                       (Build OpMsgStatusUpdate
                          [Itoa msgID, uuid_String roomID, uuid_String userID, ''read'',
                           time_Format l readAt])]))"

text \<open>
  \<open>ProcessIncomingPacket\<close>: the cases of the \<open>switch\<close> in the order of the source. A
  \<open>return\<close> leaves the store as it is and emits what \<open>checkMembership\<close> has emitted.
\<close>

definition ProcessIncomingPacket ::
  "lib \<Rightarrow> dispatch_faults \<Rightarrow> gen \<Rightarrow> db \<Rightarrow> uuid \<Rightarrow> Packet \<Rightarrow> db \<times> effect list" where
  "ProcessIncomingPacket l f g d senderID packet =
     (if Op packet = OpMsgSend then
        (if length (Payload packet) < 3 then (d, [])
         else let roomID = fst (uuid_Parse l (Payload packet ! 0));
                  clientMsgUID = fst (uuid_Parse l (Payload packet ! 1));
                  content = Payload packet ! 2
              in case checkMembership (member_err f) d senderID roomID of
                   (ok, es) \<Rightarrow>
                     if \<not> ok then (d, es)
                     else handleSendMessage l (store_err f) g d senderID roomID clientMsgUID content)
      else if Op packet = OpMsgEdit then
        (if length (Payload packet) < 3 then (d, [])
         else case ParseInt (Payload packet ! 0) of
           (msgID, e1) \<Rightarrow>
             if e1 then (d, [])
             else case uuid_Parse l (Payload packet ! 1) of
               (roomID, e2) \<Rightarrow>
                 if e2 then (d, [])
                 else case checkMembership (member_err f) d senderID roomID of
                   (ok, es) \<Rightarrow>
                     if \<not> ok then (d, es)
                     else handleEditMessage (store_err f) g d senderID msgID roomID (Payload packet ! 2))
      else if Op packet = OpMsgDelete then
        (if length (Payload packet) < 2 then (d, [])
         else case ParseInt (Payload packet ! 0) of
           (msgID, e1) \<Rightarrow>
             if e1 then (d, [])
             else case uuid_Parse l (Payload packet ! 1) of
               (roomID, e2) \<Rightarrow>
                 if e2 then (d, [])
                 else case checkMembership (member_err f) d senderID roomID of
                   (ok, es) \<Rightarrow>
                     if \<not> ok then (d, es)
                     else handleDeleteMessage (store_err f) d senderID msgID roomID)
      else if Op packet = OpMsgRead then
        (if length (Payload packet) < 2 then (d, [])
         else let msgID = fst (ParseInt (Payload packet ! 0));
                  roomID = fst (uuid_Parse l (Payload packet ! 1))
              in case checkMembership (member_err f) d senderID roomID of
                   (ok, es) \<Rightarrow>
                     if \<not> ok then (d, es)
                     else handleReadMessage l (store_err f) g d msgID senderID roomID)
      else if Op packet = OpWebRTCSignal then
        (if length (Payload packet) < 2 then (d, [])
         else let roomIDStr = Payload packet ! 0
              in case uuid_Parse l roomIDStr of
                (roomID, e) \<Rightarrow>
                  if e then (d, [])
                  else let signalDataString = Payload packet ! 1
                       in case IsUserInRoom (member_err f) d senderID roomID of
                         (isMember, e2) \<Rightarrow>
                           if e2 \<or> \<not> isMember then (d, [])
                           else (d, [BroadcastToRoom roomID
                                       (Build OpWebRTCSignal
                                          [uuid_String senderID, roomIDStr, signalDataString])]))
      else (d, []))"

subsection \<open>Notions used to state the properties of AcceptFriendRequest\<close>

definition participants_of :: "db \<Rightarrow> uuid \<Rightarrow> RoomParticipant list" where
  "participants_of d r = filter (\<lambda>p. p_room_id p = r) (room_participants d)"

definition rooms_have_two :: "db \<Rightarrow> bool" where
  "rooms_have_two d = list_all (\<lambda>x. 2 \<le> length (participants_of d (room_ID x))) (rooms d)"

definition accept_notifications :: "uuid \<Rightarrow> uuid \<Rightarrow> string \<Rightarrow> Room \<Rightarrow> effect list" where
  "accept_notifications a r nick cr =
     [SendToUser r (Build OpFriendRequestAccepted [uuid_String a, nick, uuid_String (room_ID cr)]),
      Subscribe r (room_ID cr),
      SendToUser a (Build OpNotifyRoomAdded [uuid_String (room_ID cr), room_Type cr, []]),
      Subscribe a (room_ID cr)]"

subsection \<open>An example store\<close>

definition ex_user :: "uuid \<Rightarrow> string \<Rightarrow> User" where
  "ex_user u n = \<lparr>user_ID = u, Email = None, Username = n, Nickname = n, user_CreatedAt = 0\<rparr>"

definition ex_member :: "uuid \<Rightarrow> uuid \<Rightarrow> RoomParticipant" where
  "ex_member r u = \<lparr>p_room_id = r, p_user_id = u, role = ''member'', joined_at = 1, is_blocked = False\<rparr>"

text \<open>
  An example store: users 1, 2 and 3; user 1 has sent user 2 a friend request; users 1 and
  3 share the private room 9.
\<close>

definition ex_store :: db where
  "ex_store =
     \<lparr>users = [ex_user 1 ''ann'', ex_user 2 ''bob'', ex_user 3 ''cat''],
      friendships = [\<lparr>UserOneID = 1, UserTwoID = 2, Status = ''pending'', ActionUserID = 1,
                      fs_CreatedAt = 5, fs_UpdatedAt = 5\<rparr>],
      rooms = [\<lparr>room_ID = 9, room_Type = ''private'', room_Name = None, room_OwnerID = None,
                room_CreatedAt = 1, room_UpdatedAt = 1\<rparr>],
      room_participants = [ex_member 9 1, ex_member 9 3],
      messages = [], message_read_status = [], messages_id_seq = 0\<rparr>"

definition no_faults :: accept_faults where
  "no_faults =
     \<lparr>get_friendship_fault = NoFault, begin_err = False, update_friendship_err = False,
      create_room_err = False, add_accepter_err = False, add_requester_err = False,
      commit_err = False, get_user_fault = NoFault\<rparr>"

definition ex_gen :: gen where
  "ex_gen = \<lparr>now = 10, new_uuid = 7\<rparr>"

subsection \<open>The writing statements of the repository\<close>

text \<open>
  The ten repository functions that execute an \<open>INSERT\<close>, \<open>UPDATE\<close> or \<open>DELETE\<close>,
  with their arguments. The other ten (\<open>GetUserByEmail\<close>, \<open>GetUserByID\<close>,
  \<open>GetFriendship\<close>, \<open>GetFriendshipsForUser\<close>, \<open>IsUserInRoom\<close>, \<open>GetRoomByID\<close>,
  \<open>GetRoomsForUser\<close>, \<open>GetMessagesForRoom\<close>, \<open>FindPrivateRoomByParticipants\<close>,
  \<open>SearchUsersByNickname\<close>) only \<open>SELECT\<close>.
\<close>

datatype repo_write =
    W_UpsertUser bool User uuid "string option" "string option"
  | W_CreateFriendship bool gen Friendship
  | W_UpdateFriendshipStatus bool gen Friendship
  | W_DeleteFriendship bool uuid uuid
  | W_CreateRoom bool gen Room
  | W_AddUserToRoom bool gen uuid uuid
  | W_CreateMessage bool gen Message
  | W_MarkMessageAsRead bool gen int uuid
  | W_UpdateMessage bool gen int uuid string
  | W_DeleteMessage bool int uuid

fun run_write :: "repo_write \<Rightarrow> db \<Rightarrow> db" where
  "run_write (W_UpsertUser err dflt ident email nickname) d = snd (UpsertUser err dflt d ident email nickname)"
| "run_write (W_CreateFriendship err g fs) d = snd (CreateFriendship err g d fs)"
| "run_write (W_UpdateFriendshipStatus err g fs) d = snd (UpdateFriendshipStatus err g d fs)"
| "run_write (W_DeleteFriendship err a b) d = snd (DeleteFriendship err d a b)"
| "run_write (W_CreateRoom err g room) d = snd (CreateRoom err g d room)"
| "run_write (W_AddUserToRoom err g userID roomID) d = snd (AddUserToRoom err g d userID roomID)"
| "run_write (W_CreateMessage err g msg) d = snd (CreateMessage err g d msg)"
| "run_write (W_MarkMessageAsRead err g messageID userID) d = snd (MarkMessageAsRead err g d messageID userID)"
| "run_write (W_UpdateMessage err g messageID userID newContent) d = snd (UpdateMessage err g d messageID userID newContent)"
| "run_write (W_DeleteMessage err messageID userID) d = snd (DeleteMessage err d messageID userID)"

text \<open>
  Every row of the second store either has a null \<open>deleted_at\<close> or carries the
  \<open>deleted_at\<close> that the row of the same id has in the first store.
\<close>

definition deleted_at_kept :: "db \<Rightarrow> db \<Rightarrow> bool" where
  "deleted_at_kept d d' =
     list_all (\<lambda>m'. DeletedAt m' = None \<or>
                     list_ex (\<lambda>m. ID m = ID m' \<and> DeletedAt m = DeletedAt m') (messages d))
       (messages d')"

definition ex_message :: "int \<Rightarrow> uuid \<Rightarrow> time \<Rightarrow> time option \<Rightarrow> Message" where
  "ex_message i u t del =
     \<lparr>ID = i, MessageUID = word_of_int (100 + i), RoomID = 9, UserID = u, Content = ''hi'',
      ReplyToMessageID = None, CreatedAt = t, UpdatedAt = None, DeletedAt = del\<rparr>"

text \<open>The example store with a history in room 9; message 3 carries a \<open>deleted_at\<close>.\<close>

definition ex_history :: db where
  "ex_history =
     ex_store\<lparr>messages := [ex_message 1 1 30 None, ex_message 2 3 10 None,
                            ex_message 3 1 20 (Some 25), ex_message 4 3 40 None,
                            ex_message 5 1 35 None],
              messages_id_seq := 5\<rparr>"

section \<open>The hub (internal/delivery/websocket/hub.go)\<close>

text \<open>
  A \<open>*Client\<close> is an address; the structs live in a heap. A Go map whose values are
  always \<open>true\<close> is the list of its keys, kept free of duplicates. The channel
  \<open>send\<close> is the list of frames put on it, with a flag for \<open>close\<close>.
\<close>

type_synonym client_ref = nat

record Client =
  client_userID :: uuid
  client_rooms :: "uuid list"
  send :: "bytes list"
  send_closed :: bool

record Hub =
  clients :: "client_ref list"
  userClients :: "uuid \<Rightarrow> client_ref option"
  hub_rooms :: "uuid \<Rightarrow> client_ref list option"
  heap :: "client_ref \<Rightarrow> Client"

definition NewHub :: Hub where
  "NewHub =
     \<lparr>clients = [], userClients = (\<lambda>u. None), hub_rooms = (\<lambda>r. None),
      heap = (\<lambda>c. \<lparr>client_userID = uuid_Nil, client_rooms = [], send = [], send_closed = False\<rparr>)\<rparr>"

definition sendMessage :: "Client \<Rightarrow> bytes \<Rightarrow> Client" where
  \<comment> \<open>Modelled from the spec: \<open>Client.sendMessage\<close>, whose file is not among the sources.
      The spec (4.3): the outbound queue is bounded, of capacity 256, and "if the outbound
      queue is full, the write is dropped for that client".\<close>
  "sendMessage c msg = (if length (send c) < 256 then c\<lparr>send := send c @ [msg]\<rparr> else c)"

definition doSubscribe :: "Hub \<Rightarrow> client_ref \<Rightarrow> uuid \<Rightarrow> Hub" where
  "doSubscribe h client roomID =
     (let room = (case hub_rooms h roomID of None \<Rightarrow> [] | Some cs \<Rightarrow> cs)
      in h\<lparr>hub_rooms := (hub_rooms h)(roomID := Some (List.insert client room)),
           heap := (heap h)(client := (heap h client)
                     \<lparr>client_rooms := List.insert roomID (client_rooms (heap h client))\<rparr>)\<rparr>)"

definition doUnsubscribe :: "Hub \<Rightarrow> client_ref \<Rightarrow> uuid \<Rightarrow> Hub" where
  "doUnsubscribe h client roomID =
     (let h1 = (case hub_rooms h roomID of
                  None \<Rightarrow> h
                | Some room \<Rightarrow>
                    if length (removeAll client room) = 0
                    then h\<lparr>hub_rooms := (hub_rooms h)(roomID := None)\<rparr>
                    else h\<lparr>hub_rooms := (hub_rooms h)(roomID := Some (removeAll client room))\<rparr>)
      in h1\<lparr>heap := (heap h1)(client := (heap h1 client)
                    \<lparr>client_rooms := removeAll roomID (client_rooms (heap h1 client))\<rparr>)\<rparr>)"

text \<open>
  One turn of the \<open>select\<close> loop of \<open>Run\<close>, for the five cases that touch the routing
  tables (the \<open>process\<close> case parses the frame and calls \<open>ProcessIncomingPacket\<close>, whose
  effects come back through \<open>broadcast\<close>, \<open>direct\<close> and \<open>subscribe\<close>). The repository
  is an interface value of the hub: its \<open>GetRoomsForUser\<close> is a parameter and gives the
  ids of the rooms and the error flag.
\<close>

datatype hub_event =
    register client_ref
  | unregister client_ref
  | broadcast uuid bytes
  | direct uuid bytes
  | subscribe uuid uuid

fun Run_step :: "(uuid \<Rightarrow> uuid list \<times> bool) \<Rightarrow> Hub \<Rightarrow> hub_event \<Rightarrow> Hub" where
  "Run_step GetRoomsForUser h (register client) =
     (let h1 = h\<lparr>clients := List.insert client (clients h),
                  userClients := (userClients h)(client_userID (heap h client) := Some client)\<rparr>
      in case GetRoomsForUser (client_userID (heap h client)) of
           (userRooms, err) \<Rightarrow>
             if err then h1
             else fold (\<lambda>roomID h'. doSubscribe h' client roomID) userRooms h1)"
| "Run_step GetRoomsForUser h (unregister client) =
     (if List.member (clients h) client
      then let h1 = h\<lparr>clients := removeAll client (clients h),
                       userClients := (userClients h)(client_userID (heap h client) := None)\<rparr>;
               h2 = fold (\<lambda>roomID h'. doUnsubscribe h' client roomID) (client_rooms (heap h1 client)) h1
           in h2\<lparr>heap := (heap h2)(client := (heap h2 client)\<lparr>send_closed := True\<rparr>)\<rparr>
      else h)"
| "Run_step GetRoomsForUser h (broadcast roomID msg) =
     (case hub_rooms h roomID of
        None \<Rightarrow> h
      | Some roomClients \<Rightarrow>
          fold (\<lambda>client h'. h'\<lparr>heap := (heap h')(client := sendMessage (heap h' client) msg)\<rparr>)
            roomClients h)"
| "Run_step GetRoomsForUser h (direct user msg) =
     (case userClients h user of
        None \<Rightarrow> h
      | Some client \<Rightarrow> h\<lparr>heap := (heap h)(client := sendMessage (heap h client) msg)\<rparr>)"
| "Run_step GetRoomsForUser h (subscribe user roomID) =
     (case userClients h user of
        None \<Rightarrow> h
      | Some client \<Rightarrow> doSubscribe h client roomID)"

text \<open>
  \<open>ServeWs\<close>: a new \<open>Client\<close> struct with an empty room set and an empty queue, handed
  to the hub on \<open>register\<close>. The address of the struct is an argument.
\<close>

definition ServeWs :: "(uuid \<Rightarrow> uuid list \<times> bool) \<Rightarrow> Hub \<Rightarrow> client_ref \<Rightarrow> uuid \<Rightarrow> Hub" where
  "ServeWs GetRoomsForUser h client user =
     Run_step GetRoomsForUser
       (h\<lparr>heap := (heap h)(client := \<lparr>client_userID = user, client_rooms = [], send = [], send_closed = False\<rparr>)\<rparr>)
       (register client)"

subsection \<open>Examples for the hub and the dispatcher\<close>

text \<open>User 1 takes part in room 9, as in the example store.\<close>

definition ex_rooms_of :: "uuid \<Rightarrow> uuid list \<times> bool" where
  "ex_rooms_of u = (if u = 1 \<or> u = 3 then [9] else [], False)"

text \<open>User 1 connects twice: first as the client at address 1, then as the client at address 2.\<close>

definition ex_reconnected :: Hub where
  "ex_reconnected = ServeWs ex_rooms_of (ServeWs ex_rooms_of NewHub 1 1) 2 1"

text \<open>
  An instance of the library parameters: a \<open>uuid.Parse\<close> that knows the canonical forms
  of the uuids of the examples and rejects every other string.
\<close>

definition ex_lib :: lib where
  "ex_lib =
     \<lparr>uuid_Parse = (\<lambda>s. case find (\<lambda>u. uuid_String u = s) [0, 1, 2, 3, 7, 9] of
                           Some u \<Rightarrow> (u, False) | None \<Rightarrow> (uuid_Nil, True)),
      time_Format = Itoa\<rparr>"

definition no_dispatch_faults :: dispatch_faults where
  "no_dispatch_faults = \<lparr>member_err = False, store_err = False\<rparr>"

section \<open>Properties of the codec\<close>

lemma digits_ne: "digits n \<noteq> []"
  by (subst digits.simps) simp

lemma is_digit_digit_char: "0 \<le> d \<Longrightarrow> d < 10 \<Longrightarrow> is_digit (digit_char d)"
  by (simp add: is_digit_def digit_char_def)

lemma digit_val_digit_char: "0 \<le> d \<Longrightarrow> d < 10 \<Longrightarrow> digit_val (digit_char d) = d"
  by (simp add: digit_val_def digit_char_def)

lemma US_not_digit: "\<not> is_digit UnitSeparator"
  by (simp add: is_digit_def UnitSeparator_def)

lemma uint8_le: "uint (op :: 8 word) \<le> 255"
  using uint_bounded [of op] by simp


lemma takeWhile_cut: "sep \<notin> set a \<Longrightarrow> takeWhile (\<lambda>c. c \<noteq> sep) (a @ sep # b) = a"
  by (induction a) auto

lemma dropWhile_cut: "sep \<notin> set a \<Longrightarrow> dropWhile (\<lambda>c. c \<noteq> sep) (a @ sep # b) = sep # b"
  by (induction a) auto

lemma SplitN2_cut: "sep \<notin> set a \<Longrightarrow> SplitN2 (a @ sep # b) sep = [a, b]"
  by (simp add: SplitN2_def takeWhile_cut dropWhile_cut)

lemma Split_no_sep: "sep \<notin> set s \<Longrightarrow> Split s sep = [s]"
  by (subst Split.simps) simp

lemma Split_cut: "sep \<notin> set a \<Longrightarrow> Split (a @ sep # b) sep = a # Split b sep"
  by (subst Split.simps) (simp add: takeWhile_cut dropWhile_cut)

lemma Split_Join:
  "ps \<noteq> [] \<Longrightarrow> \<forall>f \<in> set ps. sep \<notin> set f \<Longrightarrow> Split (Join ps [sep]) sep = ps"
proof (induction ps "[sep]" rule: Join.induct)
  case 1
  then show ?case by simp
next
  case (2 x)
  then show ?case by (simp add: Split_no_sep)
next
  case (3 x y ys)
  then show ?case by (simp add: Split_cut)
qed

lemma digits_all_digit: "0 \<le> n \<Longrightarrow> c \<in> set (digits n) \<Longrightarrow> is_digit c"
proof (induction n rule: digits.induct)
  case (1 n)
  show ?case
  proof (cases "n < 10")
    case True
    with "1.prems" show ?thesis by (subst (asm) digits.simps) (simp add: is_digit_digit_char)
  next
    case False
    from "1.prems" have "c \<in> set (digits (n div 10)) \<or> c = digit_char (n mod 10)"
      using False by (subst (asm) digits.simps) auto
    then show ?thesis using "1.IH" False "1.prems"(1) by (auto simp: is_digit_digit_char)
  qed
qed

lemma US_notin_Itoa: "UnitSeparator \<notin> set (Itoa (uint (op :: 8 word)))"
  using digits_all_digit [of "uint op" UnitSeparator] US_not_digit
  by (auto simp: Itoa_def)

lemma ParseUint_loop_snoc:
  "ParseUint_loop cutoff maxVal (cs @ [c]) n =
     (case ParseUint_loop cutoff maxVal cs n of
        Inl e \<Rightarrow> Inl e
      | Inr m \<Rightarrow> ParseUint_loop cutoff maxVal [c] m)"
  by (induction cs arbitrary: n) (simp_all add: Let_def)

lemma ParseUint_loop_digits:
  "0 \<le> n \<Longrightarrow> n \<le> maxVal \<Longrightarrow> maxVal < 2 ^ 64 div 10 \<Longrightarrow>
   ParseUint_loop ((2 ^ 64 - 1) div 10 + 1) maxVal (digits n) 0 = Inr n"
proof (induction n rule: digits.induct)
  case (1 n)
  show ?case
  proof (cases "n < 10")
    case True
    then show ?thesis using "1.prems"
      by (subst digits.simps) (simp add: is_digit_digit_char digit_val_digit_char Let_def)
  next
    case False
    have IH: "ParseUint_loop ((2 ^ 64 - 1) div 10 + 1) maxVal (digits (n div 10)) 0 = Inr (n div 10)"
      using "1.IH" False "1.prems" by simp
    have a: "n div 10 * 10 + n mod 10 = n" by simp
    have d: "n div 10 < 1844674407370955162" using "1.prems" by simp
    have e: "(n div 10 * 10) mod 18446744073709551616 = n div 10 * 10" using "1.prems" by simp
    have f: "n mod 18446744073709551616 = n" using "1.prems" by simp
    have g: "n div 10 * 10 \<le> n" using a by linarith
    have step: "ParseUint_loop 1844674407370955162 maxVal [digit_char (n mod 10)] (n div 10) = Inr n"
      using "1.prems" d g
      by (simp add: is_digit_digit_char digit_val_digit_char Let_def a e f)
    show ?thesis using IH step
      by (subst digits.simps) (simp add: False ParseUint_loop_snoc)
  qed
qed

lemma ParseUint_Itoa: "ParseUint (Itoa (uint (op :: 8 word))) 8 = Inr (uint op)"
  using ParseUint_loop_digits [of "uint op" 255] uint8_le [of op]
  by (simp add: ParseUint_def Itoa_def digits_ne)

text \<open>
  Claim C2, as the code has it. For every opcode and every list of fields none of which
  contains the byte 0x1F or 0x1E, parsing the built packet succeeds and returns the opcode
  and, for a non-empty list, exactly the fields. For the empty list \<open>Build\<close> still
  writes the unit separator, so \<open>Parse\<close> takes the second branch and
  \<open>strings.Split\<close> of the empty tail yields one empty field.
\<close>

theorem Parse_Build:
  assumes "\<forall>f \<in> set ps. UnitSeparator \<notin> set f \<and> RecordSeparator \<notin> set f"
  shows "Parse (Build op ps) =
           Inr \<lparr>Op = op, Payload = (if ps = [] then [[]] else ps)\<rparr>"
proof -
  have cut: "SplitN2 (Build op ps) UnitSeparator = [Itoa (uint op), Join ps [RecordSeparator]]"
    by (simp add: Build_def SplitN2_cut US_notin_Itoa)
  have ne: "Itoa (uint op) \<noteq> []" by (simp add: Itoa_def digits_ne)
  have pl: "Split (Join ps [RecordSeparator]) RecordSeparator = (if ps = [] then [[]] else ps)"
  proof (cases "ps = []")
    case True
    then show ?thesis by (simp add: Split_no_sep)
  next
    case False
    then show ?thesis using assms Split_Join [of ps RecordSeparator] by simp
  qed
  show ?thesis
    by (simp add: Parse_def cut ne ParseUint_Itoa pl)
qed

theorem Parse_Build_witness:
  "Parse (Build 20 [''room'', ''sdp'']) = Inr \<lparr>Op = 20, Payload = [''room'', ''sdp'']\<rparr>"
  using Parse_Build [of "[''room'', ''sdp'']" 20]
  by (simp add: UnitSeparator_def RecordSeparator_def)

text \<open>
  Claim C2 as stated includes the empty list: there the round trip does not return the
  empty list of fields.
\<close>

theorem Parse_Build_empty_counterexample:
  "Parse (Build 1 []) \<noteq> Inr \<lparr>Op = 1, Payload = []\<rparr>"
  by (simp add: Parse_def Build_def Itoa_def SplitN2_def UnitSeparator_def ParseUint_def
      digits.simps is_digit_def digit_val_def Let_def Split.simps)

section \<open>Properties of AcceptFriendRequest\<close>

text \<open>
  Every run either returns an error with the store untouched and nothing emitted, or has
  passed every step up to the commit.
\<close>

lemma Accept_chain:
  assumes "AcceptFriendRequest f g d a r = (res, d', es)"
  shows "(\<exists>e. res = Returned (Some e) \<and> d' = d \<and> es = []) \<or>
         (\<exists>fs tx1 cr tx2 tx3.
            GetFriendship (get_friendship_fault f) d a r = (Some fs, False) \<and>
            Status fs = ''pending'' \<and> ActionUserID fs \<noteq> a \<and> \<not> begin_err f \<and>
            UpdateFriendshipStatus (update_friendship_err f) g d
              (fs\<lparr>Status := ''accepted'', ActionUserID := a\<rparr>) = (False, tx1) \<and>
            CreateRoom (create_room_err f) g tx1
              \<lparr>room_ID = uuid_Nil, room_Type = ''private'', room_Name = None, room_OwnerID = None,
               room_CreatedAt = 0, room_UpdatedAt = 0\<rparr> = ((cr, False), tx2) \<and>
            AddUserToRoom (add_accepter_err f) g tx2 a (room_ID cr) = (False, tx3) \<and>
            AddUserToRoom (add_requester_err f) g tx3 r (room_ID cr) = (False, d') \<and>
            \<not> commit_err f \<and>
            (res = Panicked \<and> es = [] \<and> fst (GetUserByID (get_user_fault f) d' a) = None \<or>
             (\<exists>acc. fst (GetUserByID (get_user_fault f) d' a) = Some acc \<and> res = Returned None \<and>
                es = accept_notifications a r (Nickname acc) cr)))"
  using assms
  unfolding AcceptFriendRequest_def accept_notifications_def
  by (auto split: prod.splits option.splits if_splits)

lemma UpdateFriendshipStatus_ok:
  "UpdateFriendshipStatus e g d fs = (False, tx) \<Longrightarrow>
     \<not> e \<and> tx = d\<lparr>friendships :=
              map (\<lambda>r. if UserOneID r = UserOneID fs \<and> UserTwoID r = UserTwoID fs
                        then r\<lparr>Status := Status fs, ActionUserID := ActionUserID fs, fs_UpdatedAt := now g\<rparr>
                        else r) (friendships d)\<rparr>"
  by (auto simp: UpdateFriendshipStatus_def split: if_splits)

lemma CreateRoom_ok:
  "CreateRoom e g tx room = ((cr, False), tx2) \<Longrightarrow>
     \<not> e \<and> \<not> room_exists tx (new_uuid g) \<and>
     cr = room\<lparr>room_ID := new_uuid g, room_CreatedAt := now g, room_UpdatedAt := now g\<rparr> \<and>
     tx2 = tx\<lparr>rooms := rooms tx @ [cr]\<rparr>"
  by (auto simp: CreateRoom_def Let_def split: if_splits)

lemma AddUserToRoom_ok:
  "AddUserToRoom e g tx u rid = (False, tx') \<Longrightarrow>
     \<not> e \<and> \<not> list_ex (\<lambda>p. p_room_id p = rid \<and> p_user_id p = u) (room_participants tx) \<and>
     user_exists tx u \<and>
     tx' = tx\<lparr>room_participants := room_participants tx @
              [\<lparr>p_room_id = rid, p_user_id = u, role = ''member'', joined_at = now g, is_blocked = False\<rparr>]\<rparr>"
  by (auto simp: AddUserToRoom_def split: if_splits)

lemma GetFriendship_ok:
  "GetFriendship f d a r = (Some fs, False) \<Longrightarrow>
     f = NoFault \<and>
     find (\<lambda>x. UserOneID x = (if uuid_String a > uuid_String r then r else a) \<and>
                UserTwoID x = (if uuid_String a > uuid_String r then a else r)) (friendships d) = Some fs"
  by (auto simp: GetFriendship_def Let_def split: fault.splits option.splits)

lemma find_map_keys:
  "(\<And>x. P (F x) = P x) \<Longrightarrow> find P (map F xs) = map_option F (find P xs)"
  by (induction xs) auto

lemma find_SomeD: "find P xs = Some x \<Longrightarrow> P x"
  by (induction xs) (auto split: if_splits)

text \<open>What a run that passed the commit has written.\<close>

lemma Accept_committed:
  assumes "AcceptFriendRequest f g d a r = (res, d', es)"
      and "\<not> (\<exists>e. res = Returned (Some e))"
  shows "\<exists>fs. GetFriendship (get_friendship_fault f) d a r = (Some fs, False) \<and>
           Status fs = ''pending'' \<and> ActionUserID fs \<noteq> a \<and>
           \<not> begin_err f \<and> \<not> update_friendship_err f \<and> \<not> create_room_err f \<and>
           \<not> add_accepter_err f \<and> \<not> add_requester_err f \<and> \<not> commit_err f \<and>
           \<not> room_exists d (new_uuid g) \<and> a \<noteq> r \<and> user_exists d a \<and>
           d' = d\<lparr>friendships :=
                    map (\<lambda>x. if UserOneID x = UserOneID fs \<and> UserTwoID x = UserTwoID fs
                              then x\<lparr>Status := ''accepted'', ActionUserID := a, fs_UpdatedAt := now g\<rparr>
                              else x) (friendships d),
                  rooms := rooms d @
                    [\<lparr>room_ID = new_uuid g, room_Type = ''private'', room_Name = None, room_OwnerID = None,
                      room_CreatedAt = now g, room_UpdatedAt = now g\<rparr>],
                  room_participants := room_participants d @
                    [\<lparr>p_room_id = new_uuid g, p_user_id = a, role = ''member'', joined_at = now g,
                      is_blocked = False\<rparr>,
                     \<lparr>p_room_id = new_uuid g, p_user_id = r, role = ''member'', joined_at = now g,
                      is_blocked = False\<rparr>]\<rparr> \<and>
           (res = Panicked \<and> es = [] \<and> fst (GetUserByID (get_user_fault f) d' a) = None \<or>
            (\<exists>acc. fst (GetUserByID (get_user_fault f) d' a) = Some acc \<and> res = Returned None \<and>
               es = accept_notifications a r (Nickname acc)
                      \<lparr>room_ID = new_uuid g, room_Type = ''private'', room_Name = None,
                       room_OwnerID = None, room_CreatedAt = now g, room_UpdatedAt = now g\<rparr>))"
proof -
  from Accept_chain [OF assms(1)] assms(2)
  obtain fs tx1 cr tx2 tx3 where
    gf: "GetFriendship (get_friendship_fault f) d a r = (Some fs, False)" and
    st: "Status fs = ''pending''" "ActionUserID fs \<noteq> a" "\<not> begin_err f" "\<not> commit_err f" and
    up: "UpdateFriendshipStatus (update_friendship_err f) g d
           (fs\<lparr>Status := ''accepted'', ActionUserID := a\<rparr>) = (False, tx1)" and
    cr: "CreateRoom (create_room_err f) g tx1
           \<lparr>room_ID = uuid_Nil, room_Type = ''private'', room_Name = None, room_OwnerID = None,
            room_CreatedAt = 0, room_UpdatedAt = 0\<rparr> = ((cr, False), tx2)" and
    a1: "AddUserToRoom (add_accepter_err f) g tx2 a (room_ID cr) = (False, tx3)" and
    a2: "AddUserToRoom (add_requester_err f) g tx3 r (room_ID cr) = (False, d')" and
    fin: "res = Panicked \<and> es = [] \<and> fst (GetUserByID (get_user_fault f) d' a) = None \<or>
          (\<exists>acc. fst (GetUserByID (get_user_fault f) d' a) = Some acc \<and> res = Returned None \<and>
             es = accept_notifications a r (Nickname acc) cr)"
    by blast
  note u = UpdateFriendshipStatus_ok [OF up]
  note c = CreateRoom_ok [OF cr]
  note p1 = AddUserToRoom_ok [OF a1]
  note p2 = AddUserToRoom_ok [OF a2]
  have crv: "cr = \<lparr>room_ID = new_uuid g, room_Type = ''private'', room_Name = None, room_OwnerID = None,
                   room_CreatedAt = now g, room_UpdatedAt = now g\<rparr>"
    using c by simp
  have rid: "room_ID cr = new_uuid g" using crv by simp
  have ne: "a \<noteq> r"
  proof
    assume "a = r"
    then show False using p1 p2 by (simp add: rid)
  qed
  have nex: "\<not> room_exists d (new_uuid g)" using c u by (simp add: room_exists_def)
  have ue: "user_exists d a" using p1 c u by (simp add: user_exists_def)
  have d': "d' = d\<lparr>friendships :=
                    map (\<lambda>x. if UserOneID x = UserOneID fs \<and> UserTwoID x = UserTwoID fs
                              then x\<lparr>Status := ''accepted'', ActionUserID := a, fs_UpdatedAt := now g\<rparr>
                              else x) (friendships d),
                  rooms := rooms d @ [cr],
                  room_participants := room_participants d @
                    [\<lparr>p_room_id = new_uuid g, p_user_id = a, role = ''member'', joined_at = now g,
                      is_blocked = False\<rparr>,
                     \<lparr>p_room_id = new_uuid g, p_user_id = r, role = ''member'', joined_at = now g,
                      is_blocked = False\<rparr>]\<rparr>"
    using u c p1 p2 by (simp add: rid)
  show ?thesis
    using gf st u c p1 p2 ne nex ue fin d' unfolding crv [symmetric] by blast
qed

lemma participants_of_append:
  "participants_of (d\<lparr>room_participants := room_participants d @ ps\<rparr>) x =
     participants_of d x @ filter (\<lambda>p. p_room_id p = x) ps"
  by (simp add: participants_of_def)

lemma rooms_have_two_committed:
  assumes "rooms_have_two d"
  shows "rooms_have_two
           (d\<lparr>friendships := fl,
              rooms := rooms d @ [\<lparr>room_ID = n, room_Type = t, room_Name = nm, room_OwnerID = ow,
                                  room_CreatedAt = c1, room_UpdatedAt = c2\<rparr>],
              room_participants := room_participants d @
                [\<lparr>p_room_id = n, p_user_id = a, role = ro, joined_at = j, is_blocked = b\<rparr>,
                 \<lparr>p_room_id = n, p_user_id = r, role = ro', joined_at = j', is_blocked = b'\<rparr>]\<rparr>)"
  using assms
  by (auto simp: rooms_have_two_def participants_of_def list_all_iff)

text \<open>
  Claim C3. The status update, the room creation and both participant insertions run in
  one transaction. If any step fails the call returns an error; whenever it returns an
  error the store (friendship row, rooms, participants and all) is what it was and no
  notification or subscription has been emitted. No room is left with fewer than two
  participants: a store in which every room has at least two keeps that property. And
  whenever a notification or subscription is emitted, the store already holds the
  committed state: the friendship reads as accepted by the accepter and the new room
  exists with both users as members.
\<close>

theorem AcceptFriendRequest_atomic:
  assumes "AcceptFriendRequest f g d a r = (res, d', es)"
  shows "((begin_err f \<or> update_friendship_err f \<or> create_room_err f \<or> add_accepter_err f \<or>
           add_requester_err f \<or> commit_err f) \<longrightarrow> (\<exists>e. res = Returned (Some e)))
       \<and> ((\<exists>e. res = Returned (Some e)) \<longrightarrow> d' = d \<and> es = [])
       \<and> (rooms_have_two d \<longrightarrow> rooms_have_two d')
       \<and> (es \<noteq> [] \<longrightarrow>
            res = Returned None \<and>
            (\<exists>fs'. GetFriendship NoFault d' a r = (Some fs', False) \<and>
                    Status fs' = ''accepted'' \<and> ActionUserID fs' = a) \<and>
            \<not> room_exists d (new_uuid g) \<and> room_exists d' (new_uuid g) \<and>
            length (participants_of d' (new_uuid g)) \<ge> 2 \<and>
            IsUserInRoom False d' a (new_uuid g) = (True, False) \<and>
            IsUserInRoom False d' r (new_uuid g) = (True, False))"
proof (cases "\<exists>e. res = Returned (Some e)")
  case True
  then have "d' = d \<and> es = []"
    using Accept_chain [OF assms] by auto
  then show ?thesis using True by simp
next
  case False
  from Accept_committed [OF assms False]
  obtain fs where
    gf: "GetFriendship (get_friendship_fault f) d a r = (Some fs, False)" and
    fl: "\<not> begin_err f" "\<not> update_friendship_err f" "\<not> create_room_err f"
        "\<not> add_accepter_err f" "\<not> add_requester_err f" "\<not> commit_err f" and
    nex: "\<not> room_exists d (new_uuid g)" and
    d': "d' = d\<lparr>friendships :=
                    map (\<lambda>x. if UserOneID x = UserOneID fs \<and> UserTwoID x = UserTwoID fs
                              then x\<lparr>Status := ''accepted'', ActionUserID := a, fs_UpdatedAt := now g\<rparr>
                              else x) (friendships d),
                  rooms := rooms d @
                    [\<lparr>room_ID = new_uuid g, room_Type = ''private'', room_Name = None, room_OwnerID = None,
                      room_CreatedAt = now g, room_UpdatedAt = now g\<rparr>],
                  room_participants := room_participants d @
                    [\<lparr>p_room_id = new_uuid g, p_user_id = a, role = ''member'', joined_at = now g,
                      is_blocked = False\<rparr>,
                     \<lparr>p_room_id = new_uuid g, p_user_id = r, role = ''member'', joined_at = now g,
                      is_blocked = False\<rparr>]\<rparr>" and
    fin: "res = Panicked \<and> es = [] \<or> res = Returned None"
    by blast
  let ?P = "\<lambda>x. UserOneID x = (if uuid_String a > uuid_String r then r else a) \<and>
                 UserTwoID x = (if uuid_String a > uuid_String r then a else r)"
  let ?F = "\<lambda>x. if UserOneID x = UserOneID fs \<and> UserTwoID x = UserTwoID fs
                 then x\<lparr>Status := ''accepted'', ActionUserID := a, fs_UpdatedAt := now g\<rparr> else x"
  have fnd: "find ?P (friendships d) = Some fs" using GetFriendship_ok [OF gf] by simp
  have Pfs: "?P fs" using find_SomeD [OF fnd] .
  have "find ?P (map ?F (friendships d)) = map_option ?F (find ?P (friendships d))"
    by (rule find_map_keys) simp
  then have fnd': "find ?P (friendships d') = Some (?F fs)" using fnd by (simp add: d')
  have acc: "\<exists>fs'. GetFriendship NoFault d' a r = (Some fs', False) \<and>
                   Status fs' = ''accepted'' \<and> ActionUserID fs' = a"
    using fnd' by (simp add: GetFriendship_def Let_def)
  have two: "rooms_have_two d \<longrightarrow> rooms_have_two d'"
    unfolding d' by (auto intro: rooms_have_two_committed)
  have re: "room_exists d' (new_uuid g)" by (simp add: d' room_exists_def)
  have cnt: "length (participants_of d' (new_uuid g)) \<ge> 2"
    by (simp add: d' participants_of_def)
  have m1: "IsUserInRoom False d' a (new_uuid g) = (True, False)"
    by (simp add: d' IsUserInRoom_def)
  have m2: "IsUserInRoom False d' r (new_uuid g) = (True, False)"
    by (simp add: d' IsUserInRoom_def)
  show ?thesis
    using False fl fin acc two nex re cnt m1 m2 by blast
qed

text \<open>
  Claim C5, as the code has it. After a successful accept, a second accept by the same
  accepter for the same requester fails, but with the error "invalid friend request
  state": the row is still found, and its status is no longer pending. (The lookup of the
  second call is assumed not to fail in the store.)
\<close>

theorem AcceptFriendRequest_twice:
  assumes "AcceptFriendRequest f g d a r = (Returned None, d1, es)"
      and "get_friendship_fault f2 = NoFault"
  shows "AcceptFriendRequest f2 g2 d1 a r = (Returned (Some ''invalid friend request state''), d1, [])"
proof -
  have nf: "\<not> (\<exists>e. Returned None = Returned (Some e))" by simp
  from Accept_committed [OF assms(1) nf]
  obtain fs where
    gf: "GetFriendship (get_friendship_fault f) d a r = (Some fs, False)" and
    d1: "friendships d1 =
           map (\<lambda>x. if UserOneID x = UserOneID fs \<and> UserTwoID x = UserTwoID fs
                     then x\<lparr>Status := ''accepted'', ActionUserID := a, fs_UpdatedAt := now g\<rparr>
                     else x) (friendships d)"
    by auto
  let ?P = "\<lambda>x. UserOneID x = (if uuid_String a > uuid_String r then r else a) \<and>
                 UserTwoID x = (if uuid_String a > uuid_String r then a else r)"
  let ?F = "\<lambda>x. if UserOneID x = UserOneID fs \<and> UserTwoID x = UserTwoID fs
                 then x\<lparr>Status := ''accepted'', ActionUserID := a, fs_UpdatedAt := now g\<rparr> else x"
  have fnd: "find ?P (friendships d) = Some fs" using GetFriendship_ok [OF gf] by simp
  have "find ?P (map ?F (friendships d)) = map_option ?F (find ?P (friendships d))"
    by (rule find_map_keys) simp
  then have "find ?P (friendships d1) = Some (?F fs)" using fnd by (simp add: d1)
  then have "GetFriendship (get_friendship_fault f2) d1 a r =
               (Some (fs\<lparr>Status := ''accepted'', ActionUserID := a, fs_UpdatedAt := now g\<rparr>), False)"
    by (simp add: GetFriendship_def Let_def assms(2))
  then show ?thesis
    by (simp add: AcceptFriendRequest_def)
qed

lemma Accept_run:
  assumes "GetFriendship (get_friendship_fault f) d a r = (Some fs, False)"
      and "Status fs = ''pending''" "ActionUserID fs \<noteq> a" "\<not> begin_err f" "\<not> commit_err f"
      and "UpdateFriendshipStatus (update_friendship_err f) g d
             (fs\<lparr>Status := ''accepted'', ActionUserID := a\<rparr>) = (False, tx1)"
      and "CreateRoom (create_room_err f) g tx1
             \<lparr>room_ID = uuid_Nil, room_Type = ''private'', room_Name = None, room_OwnerID = None,
              room_CreatedAt = 0, room_UpdatedAt = 0\<rparr> = ((cr, False), tx2)"
      and "AddUserToRoom (add_accepter_err f) g tx2 a (room_ID cr) = (False, tx3)"
      and "AddUserToRoom (add_requester_err f) g tx3 r (room_ID cr) = (False, d')"
  shows "AcceptFriendRequest f g d a r =
           (case fst (GetUserByID (get_user_fault f) d' a) of
              None \<Rightarrow> (Panicked, d', [])
            | Some acc \<Rightarrow> (Returned None, d', accept_notifications a r (Nickname acc) cr))"
  using assms by (simp add: AcceptFriendRequest_def accept_notifications_def split: option.splits)

text \<open>
  Claim C9. The user record of the accepter is fetched after the commit, its error is
  dropped and its \<open>Nickname\<close> is read without a nil check. For every run that
  succeeds, the same run with that lookup failing in the store panics, after the
  friendship and the room have been committed, and emits nothing.
\<close>

theorem AcceptFriendRequest_panics_after_commit:
  assumes "AcceptFriendRequest f g d a r = (Returned None, d', es)"
  shows "AcceptFriendRequest (f\<lparr>get_user_fault := QueryFault\<rparr>) g d a r = (Panicked, d', [])
       \<and> d' \<noteq> d
       \<and> room_exists d' (new_uuid g) \<and> \<not> room_exists d (new_uuid g)
       \<and> (\<exists>fs'. GetFriendship NoFault d' a r = (Some fs', False) \<and> Status fs' = ''accepted'')"
proof -
  from Accept_chain [OF assms]
  obtain fs tx1 cr tx2 tx3 where
    gf: "GetFriendship (get_friendship_fault f) d a r = (Some fs, False)" and
    st: "Status fs = ''pending''" "ActionUserID fs \<noteq> a" "\<not> begin_err f" "\<not> commit_err f" and
    up: "UpdateFriendshipStatus (update_friendship_err f) g d
           (fs\<lparr>Status := ''accepted'', ActionUserID := a\<rparr>) = (False, tx1)" and
    cr: "CreateRoom (create_room_err f) g tx1
           \<lparr>room_ID = uuid_Nil, room_Type = ''private'', room_Name = None, room_OwnerID = None,
            room_CreatedAt = 0, room_UpdatedAt = 0\<rparr> = ((cr, False), tx2)" and
    a1: "AddUserToRoom (add_accepter_err f) g tx2 a (room_ID cr) = (False, tx3)" and
    a2: "AddUserToRoom (add_requester_err f) g tx3 r (room_ID cr) = (False, d')"
    by auto
  let ?f = "f\<lparr>get_user_fault := QueryFault\<rparr>"
  have run: "AcceptFriendRequest ?f g d a r =
               (case fst (GetUserByID (get_user_fault ?f) d' a) of
                  None \<Rightarrow> (Panicked, d', [])
                | Some acc \<Rightarrow> (Returned None, d', accept_notifications a r (Nickname acc) cr))"
    by (rule Accept_run [where fs = fs and ?tx1.0 = tx1 and ?tx2.0 = tx2 and ?tx3.0 = tx3])
       (simp_all add: gf st up cr a1 a2)
  have panic: "AcceptFriendRequest ?f g d a r = (Panicked, d', [])"
    using run by (simp add: GetUserByID_def)
  have nf: "\<not> (\<exists>e. Returned None = Returned (Some e))" by simp
  from Accept_committed [OF assms nf]
  obtain fs0 where
    gf0: "GetFriendship (get_friendship_fault f) d a r = (Some fs0, False)" and
    nex: "\<not> room_exists d (new_uuid g)" and
    d': "d' = d\<lparr>friendships :=
                    map (\<lambda>x. if UserOneID x = UserOneID fs0 \<and> UserTwoID x = UserTwoID fs0
                              then x\<lparr>Status := ''accepted'', ActionUserID := a, fs_UpdatedAt := now g\<rparr>
                              else x) (friendships d),
                  rooms := rooms d @
                    [\<lparr>room_ID = new_uuid g, room_Type = ''private'', room_Name = None, room_OwnerID = None,
                      room_CreatedAt = now g, room_UpdatedAt = now g\<rparr>],
                  room_participants := room_participants d @
                    [\<lparr>p_room_id = new_uuid g, p_user_id = a, role = ''member'', joined_at = now g,
                      is_blocked = False\<rparr>,
                     \<lparr>p_room_id = new_uuid g, p_user_id = r, role = ''member'', joined_at = now g,
                      is_blocked = False\<rparr>]\<rparr>"
    by blast
  let ?P = "\<lambda>x. UserOneID x = (if uuid_String a > uuid_String r then r else a) \<and>
                 UserTwoID x = (if uuid_String a > uuid_String r then a else r)"
  let ?F = "\<lambda>x. if UserOneID x = UserOneID fs0 \<and> UserTwoID x = UserTwoID fs0
                 then x\<lparr>Status := ''accepted'', ActionUserID := a, fs_UpdatedAt := now g\<rparr> else x"
  have fnd: "find ?P (friendships d) = Some fs0" using GetFriendship_ok [OF gf0] by simp
  have "find ?P (map ?F (friendships d)) = map_option ?F (find ?P (friendships d))"
    by (rule find_map_keys) simp
  then have "find ?P (friendships d') = Some (?F fs0)" using fnd by (simp add: d')
  then have acc: "\<exists>fs'. GetFriendship NoFault d' a r = (Some fs', False) \<and> Status fs' = ''accepted''"
    by (simp add: GetFriendship_def Let_def)
  have re: "room_exists d' (new_uuid g)" by (simp add: d' room_exists_def)
  have "rooms d' \<noteq> rooms d" by (simp add: d')
  then have neq: "d' \<noteq> d" by auto
  show ?thesis using panic neq re nex acc by blast
qed

theorem AcceptFriendRequest_atomic_witness:
  "snd (snd (AcceptFriendRequest no_faults ex_gen ex_store 2 1)) \<noteq> []
   \<and> fst (AcceptFriendRequest no_faults ex_gen ex_store 2 1) = Returned None
   \<and> rooms_have_two ex_store
   \<and> rooms_have_two (fst (snd (AcceptFriendRequest no_faults ex_gen ex_store 2 1)))
   \<and> IsUserInRoom False (fst (snd (AcceptFriendRequest no_faults ex_gen ex_store 2 1))) 1 7 = (True, False)
   \<and> add_requester_err (no_faults\<lparr>add_requester_err := True\<rparr>)
   \<and> fst (AcceptFriendRequest (no_faults\<lparr>add_requester_err := True\<rparr>) ex_gen ex_store 2 1) =
       Returned (Some ''failed to add requester to room: '')
   \<and> fst (snd (AcceptFriendRequest (no_faults\<lparr>add_requester_err := True\<rparr>) ex_gen ex_store 2 1)) = ex_store
   \<and> snd (snd (AcceptFriendRequest (no_faults\<lparr>add_requester_err := True\<rparr>) ex_gen ex_store 2 1)) = []"
proof -
  let ?R = "AcceptFriendRequest no_faults ex_gen ex_store 2 1"
  let ?Q = "AcceptFriendRequest (no_faults\<lparr>add_requester_err := True\<rparr>) ex_gen ex_store 2 1"
  have es: "snd (snd ?R) \<noteq> []" by code_simp
  have two: "rooms_have_two ex_store" by code_simp
  have g: "new_uuid ex_gen = 7" by (simp add: ex_gen_def)
  have q: "fst ?Q = Returned (Some ''failed to add requester to room: '')" by code_simp
  have "?R = (fst ?R, fst (snd ?R), snd (snd ?R))" by simp
  note r = AcceptFriendRequest_atomic [OF this]
  have "?Q = (fst ?Q, fst (snd ?Q), snd (snd ?Q))" by simp
  note f = AcceptFriendRequest_atomic [OF this]
  show ?thesis using r f es two q by (simp add: g)
qed

theorem AcceptFriendRequest_twice_witness:
  "AcceptFriendRequest no_faults ex_gen ex_store 2 1 =
     (Returned None, fst (snd (AcceptFriendRequest no_faults ex_gen ex_store 2 1)),
      snd (snd (AcceptFriendRequest no_faults ex_gen ex_store 2 1)))
   \<and> get_friendship_fault no_faults = NoFault
   \<and> fst (AcceptFriendRequest no_faults ex_gen
            (fst (snd (AcceptFriendRequest no_faults ex_gen ex_store 2 1))) 2 1) =
       Returned (Some ''invalid friend request state'')"
proof -
  let ?R = "AcceptFriendRequest no_faults ex_gen ex_store 2 1"
  have ok: "fst ?R = Returned None" by code_simp
  have eq: "?R = (Returned None, fst (snd ?R), snd (snd ?R))"
    using ok by (metis prod.collapse)
  have nf: "get_friendship_fault no_faults = NoFault" by (simp add: no_faults_def)
  show ?thesis using AcceptFriendRequest_twice [OF eq nf, of ex_gen] eq nf by simp
qed

text \<open>
  Claim C5 as stated names the error "no pending friend request found": on the example
  store the first accept succeeds and the second does not fail with that error.
\<close>

theorem AcceptFriendRequest_twice_counterexample:
  "fst (AcceptFriendRequest no_faults ex_gen ex_store 2 1) = Returned None
   \<and> fst (AcceptFriendRequest no_faults ex_gen
            (fst (snd (AcceptFriendRequest no_faults ex_gen ex_store 2 1))) 2 1) \<noteq>
       Returned (Some ''no pending friend request found'')"
  by code_simp

theorem AcceptFriendRequest_panics_after_commit_witness:
  "AcceptFriendRequest no_faults ex_gen ex_store 2 1 =
     (Returned None, fst (snd (AcceptFriendRequest no_faults ex_gen ex_store 2 1)),
      snd (snd (AcceptFriendRequest no_faults ex_gen ex_store 2 1)))
   \<and> fst (AcceptFriendRequest (no_faults\<lparr>get_user_fault := QueryFault\<rparr>) ex_gen ex_store 2 1) = Panicked
   \<and> fst (snd (AcceptFriendRequest (no_faults\<lparr>get_user_fault := QueryFault\<rparr>) ex_gen ex_store 2 1)) \<noteq> ex_store
   \<and> room_exists (fst (snd (AcceptFriendRequest (no_faults\<lparr>get_user_fault := QueryFault\<rparr>) ex_gen ex_store 2 1))) 7"
proof -
  let ?R = "AcceptFriendRequest no_faults ex_gen ex_store 2 1"
  have ok: "fst ?R = Returned None" by code_simp
  have eq: "?R = (Returned None, fst (snd ?R), snd (snd ?R))"
    using ok by (metis prod.collapse)
  have g: "new_uuid ex_gen = 7" by (simp add: ex_gen_def)
  show ?thesis using AcceptFriendRequest_panics_after_commit [OF eq] eq by (simp add: g)
qed

section \<open>Properties of the message history\<close>

lemma reverse_loop_length: "length (reverse_loop ms i j) = length ms"
proof (induction ms i j rule: reverse_loop.induct)
  case (1 ms i j)
  then show ?case by (subst reverse_loop.simps) simp
qed

lemma reverse_loop_nth:
  "0 \<le> i \<Longrightarrow> j < int (length ms) \<Longrightarrow> k < length ms \<Longrightarrow>
   reverse_loop ms i j ! k =
     (if i \<le> int k \<and> int k \<le> j then ms ! nat (i + j - int k) else ms ! k)"
proof (induction ms i j rule: reverse_loop.induct)
  case (1 ms i j)
  show ?case
  proof (cases "i < j")
    case False
    have "i \<le> int k \<and> int k \<le> j \<Longrightarrow> nat (i + j - int k) = k" using False by linarith
    then show ?thesis using False by (subst reverse_loop.simps) auto
  next
    case True
    let ?ms = "ms[nat i := ms ! nat j, nat j := ms ! nat i]"
    have len: "length ?ms = length ms" by simp
    have IH: "reverse_loop ?ms (i + 1) (j - 1) ! k =
                (if i + 1 \<le> int k \<and> int k \<le> j - 1 then ?ms ! nat (i + 1 + (j - 1) - int k) else ?ms ! k)"
      using "1.IH" [OF True] "1.prems" by simp
    have unf: "reverse_loop ms i j = reverse_loop ?ms (i + 1) (j - 1)"
      using True by (subst reverse_loop.simps) simp
    have ni: "nat i < length ms" and nj: "nat j < length ms" and nij: "nat i \<noteq> nat j"
      using True "1.prems" by linarith+
    consider (inner) "i + 1 \<le> int k" "int k \<le> j - 1" | (left) "int k = i" | (right) "int k = j"
      | (out) "int k < i \<or> j < int k"
      by linarith
    then show ?thesis
    proof cases
      case inner
      have a: "nat (i + j - int k) \<noteq> nat i" "nat (i + j - int k) \<noteq> nat j"
        using inner "1.prems" by linarith+
      show ?thesis using inner a by (simp add: unf IH)
    next
      case left
      have "reverse_loop ?ms (i + 1) (j - 1) ! k = ?ms ! k" using IH left by simp
      also have "?ms ! k = ms ! nat j"
      proof -
        have ki: "nat i = k" using left by linarith
        show ?thesis using nij ni nj unfolding ki by simp
      qed
      finally show ?thesis using left True by (simp add: unf)
    next
      case right
      have "reverse_loop ?ms (i + 1) (j - 1) ! k = ?ms ! k" using IH right by simp
      also have "?ms ! k = ms ! nat i"
      proof -
        have kj: "nat j = k" using right by linarith
        show ?thesis using nij ni nj unfolding kj by simp
      qed
      finally show ?thesis using right True by (simp add: unf)
    next
      case out
      then have "k \<noteq> nat i" "k \<noteq> nat j" using "1.prems" True by linarith+
      then show ?thesis using out by (auto simp: unf IH)
    qed
  qed
qed

lemma reverse_loop_rev: "reverse_loop ms 0 (int (length ms) - 1) = rev ms"
proof (rule nth_equalityI)
  show "length (reverse_loop ms 0 (int (length ms) - 1)) = length (rev ms)"
    by (simp add: reverse_loop_length)
next
  fix k assume "k < length (reverse_loop ms 0 (int (length ms) - 1))"
  then have k: "k < length ms" by (simp add: reverse_loop_length)
  have "nat (int (length ms) - 1 - int k) = length ms - Suc k" using k by linarith
  then show "reverse_loop ms 0 (int (length ms) - 1) ! k = rev ms ! k"
    using k by (simp add: reverse_loop_nth rev_nth)
qed

lemma GetMessagesForRoom_eq:
  "GetMessagesForRoom err d roomID limit offset =
     (if err \<or> limit < 0 \<or> offset < 0 then ([], True)
      else (rev (select_messages d roomID limit offset), False))"
  by (simp add: GetMessagesForRoom_def Let_def reverse_loop_rev)

lemma set_select_messages:
  "set (select_messages d roomID limit offset) \<subseteq>
     {m \<in> set (messages d). RoomID m = roomID \<and> DeletedAt m = None}"
proof -
  have "set (select_messages d roomID limit offset) \<subseteq>
          set (rev (sort_key CreatedAt (filter (\<lambda>m. RoomID m = roomID \<and> DeletedAt m = None) (messages d))))"
    unfolding select_messages_def by (meson set_take_subset set_drop_subset subset_trans)
  then show ?thesis by auto
qed

lemma sorted_rev_select_messages:
  "sorted (map CreatedAt (rev (select_messages d roomID limit offset)))"
proof -
  let ?S = "sort_key CreatedAt (filter (\<lambda>m. RoomID m = roomID \<and> DeletedAt m = None) (messages d))"
  have "sorted (map CreatedAt ?S)" by (rule sorted_sort_key)
  then have "sorted_wrt (\<lambda>x y. y \<le> x) (rev (map CreatedAt ?S))"
    by (simp add: sorted_wrt_rev)
  then have "sorted_wrt (\<lambda>x y. y \<le> x) (take (nat limit) (drop (nat offset) (rev (map CreatedAt ?S))))"
    by (intro sorted_wrt_take sorted_wrt_drop)
  then have "sorted (rev (take (nat limit) (drop (nat offset) (rev (map CreatedAt ?S)))))"
    by (simp add: sorted_wrt_rev)
  then show ?thesis
    by (simp add: select_messages_def rev_map take_map drop_map)
qed

text \<open>
  Claim C6. For every room, limit and offset, the window that \<open>GetMessagesForRoom\<close> hands
  to its caller holds only rows of that room with a null \<open>deleted_at\<close>, all of them rows
  of the table, in ascending \<open>created_at\<close>; and when the store does not fail and limit
  and offset are not negative, the call succeeds and the window is the descending scan,
  reversed.
\<close>

theorem GetMessagesForRoom_ascending:
  "list_all (\<lambda>m. RoomID m = roomID \<and> DeletedAt m = None)
     (fst (GetMessagesForRoom err d roomID limit offset))
   \<and> sorted (map CreatedAt (fst (GetMessagesForRoom err d roomID limit offset)))
   \<and> set (fst (GetMessagesForRoom err d roomID limit offset)) \<subseteq> set (messages d)
   \<and> (\<not> err \<and> 0 \<le> limit \<and> 0 \<le> offset \<longrightarrow>
        GetMessagesForRoom err d roomID limit offset =
          (rev (select_messages d roomID limit offset), False))"
  using set_select_messages [of d roomID limit offset]
        sorted_rev_select_messages [of d roomID limit offset]
  by (auto simp: GetMessagesForRoom_eq list_all_iff)

theorem GetMessagesForRoom_ascending_witness:
  "\<not> False \<and> (0::int) \<le> 2 \<and> (0::int) \<le> 1
   \<and> GetMessagesForRoom False ex_history 9 2 1 =
       ([ex_message 1 1 30 None, ex_message 5 1 35 None], False)
   \<and> sorted (map CreatedAt (fst (GetMessagesForRoom False ex_history 9 2 1)))"
proof -
  have "rev (select_messages ex_history 9 2 1) = [ex_message 1 1 30 None, ex_message 5 1 35 None]"
    by code_simp
  then show ?thesis
    using GetMessagesForRoom_ascending [of 9 False ex_history 2 1] by (simp add: ex_message_def)
qed

section \<open>Properties of the writing statements\<close>

lemma deleted_at_kept_same: "messages d' = messages d \<Longrightarrow> deleted_at_kept d d'"
  by (auto simp: deleted_at_kept_def list_all_iff list_ex_iff)

lemma deleted_at_kept_UpsertUser: "deleted_at_kept d (snd (UpsertUser err dflt d ident email nickname))"
  by (rule deleted_at_kept_same) (simp add: UpsertUser_def)

lemma deleted_at_kept_CreateFriendship: "deleted_at_kept d (snd (CreateFriendship err g d fs))"
  by (rule deleted_at_kept_same) (simp add: CreateFriendship_def)

lemma deleted_at_kept_UpdateFriendshipStatus: "deleted_at_kept d (snd (UpdateFriendshipStatus err g d fs))"
  by (rule deleted_at_kept_same) (simp add: UpdateFriendshipStatus_def)

lemma deleted_at_kept_DeleteFriendship: "deleted_at_kept d (snd (DeleteFriendship err d a b))"
  by (rule deleted_at_kept_same) (simp add: DeleteFriendship_def Let_def)

lemma deleted_at_kept_CreateRoom: "deleted_at_kept d (snd (CreateRoom err g d room))"
  by (rule deleted_at_kept_same) (simp add: CreateRoom_def Let_def)

lemma deleted_at_kept_AddUserToRoom: "deleted_at_kept d (snd (AddUserToRoom err g d userID roomID))"
  by (rule deleted_at_kept_same) (simp add: AddUserToRoom_def)

lemma deleted_at_kept_MarkMessageAsRead: "deleted_at_kept d (snd (MarkMessageAsRead err g d messageID userID))"
  by (rule deleted_at_kept_same) (simp add: MarkMessageAsRead_def)

lemma deleted_at_kept_CreateMessage: "deleted_at_kept d (snd (CreateMessage err g d msg))"
  by (auto simp: CreateMessage_def COALESCE_def Let_def deleted_at_kept_def list_all_iff list_ex_iff)

lemma deleted_at_kept_UpdateMessage: "deleted_at_kept d (snd (UpdateMessage err g d messageID userID newContent))"
  by (auto simp: UpdateMessage_def deleted_at_kept_def list_all_iff list_ex_iff)

lemma deleted_at_kept_DeleteMessage: "deleted_at_kept d (snd (DeleteMessage err d messageID userID))"
  by (auto simp: DeleteMessage_def deleted_at_kept_def list_all_iff list_ex_iff)

lemma DeleteMessage_removes:
  assumes "distinct (map ID (messages d))" and "DeleteMessage err d messageID userID = (False, d')"
  shows "\<not> message_exists d' messageID \<and> length (messages d') < length (messages d)"
proof -
  let ?P = "\<lambda>m. ID m = messageID \<and> UserID m = userID"
  have nerr: "\<not> err"
    using assms(2) by (cases err) (simp_all add: DeleteMessage_def)
  have ne: "length (filter ?P (messages d)) \<noteq> 0"
  proof
    assume "length (filter ?P (messages d)) = 0"
    then show False using assms(2) nerr by (simp add: DeleteMessage_def)
  qed
  then have "filter ?P (messages d) \<noteq> []" by simp
  then obtain m where "m \<in> set (filter ?P (messages d))"
    by (cases "filter ?P (messages d)") auto
  then have m: "m \<in> set (messages d)" "ID m = messageID" "UserID m = userID"
    by simp_all
  have inj: "inj_on ID (set (messages d))" using assms(1) by (simp add: distinct_map)
  have uniq: "x = m" if "x \<in> set (messages d)" "ID x = messageID" for x
    using inj that m by (auto dest: inj_onD)
  have d': "messages d' =
              map (\<lambda>m. if ReplyToMessageID m = Some messageID then m\<lparr>ReplyToMessageID := None\<rparr> else m)
                (filter (\<lambda>m. \<not> ?P m) (messages d))"
    using assms(2) ne nerr by (auto simp add: DeleteMessage_def)
  have gone: "\<not> message_exists d' messageID"
  proof
    assume "message_exists d' messageID"
    then obtain y where y: "y \<in> set (filter (\<lambda>m. \<not> ?P m) (messages d))" "ID y = messageID"
      by (auto simp: message_exists_def d' list_ex_iff split: if_splits)
    then have "y = m" using uniq by simp
    then show False using y m by simp
  qed
  have "length (filter (\<lambda>m. \<not> ?P m) (messages d)) < length (messages d)"
    by (rule length_filter_less [of m]) (simp_all add: m)
  then show ?thesis using gone by (simp add: d')
qed

text \<open>
  Claim C8. A successful \<open>DeleteMessage\<close> removes the row: with \<open>id\<close> a primary key, no
  row of that id is left and the table is shorter. And no writing statement of the
  repository sets \<open>deleted_at\<close>: after any of them, every row has a null \<open>deleted_at\<close>
  or the \<open>deleted_at\<close> it had before.
\<close>

theorem DeleteMessage_hard_delete:
  "(distinct (map ID (messages d)) \<and> DeleteMessage err d messageID userID = (False, d') \<longrightarrow>
      \<not> message_exists d' messageID \<and> length (messages d') < length (messages d))
   \<and> deleted_at_kept d (run_write w d)"
proof (intro conjI impI)
  assume "distinct (map ID (messages d)) \<and> DeleteMessage err d messageID userID = (False, d')"
  then have h: "distinct (map ID (messages d))" "DeleteMessage err d messageID userID = (False, d')"
    by blast+
  from DeleteMessage_removes [OF h]
  show "\<not> message_exists d' messageID" and "length (messages d') < length (messages d)"
    by blast+
next
  show "deleted_at_kept d (run_write w d)"
  proof (cases w)
    case (W_UpsertUser err dflt ident email nickname)
    then show ?thesis by (simp add: deleted_at_kept_UpsertUser)
  next
    case (W_CreateFriendship err g fs)
    then show ?thesis by (simp add: deleted_at_kept_CreateFriendship)
  next
    case (W_UpdateFriendshipStatus err g fs)
    then show ?thesis by (simp add: deleted_at_kept_UpdateFriendshipStatus)
  next
    case (W_DeleteFriendship err a b)
    then show ?thesis by (simp add: deleted_at_kept_DeleteFriendship)
  next
    case (W_CreateRoom err g room)
    then show ?thesis by (simp add: deleted_at_kept_CreateRoom)
  next
    case (W_AddUserToRoom err g userID roomID)
    then show ?thesis by (simp add: deleted_at_kept_AddUserToRoom)
  next
    case (W_CreateMessage err g msg)
    then show ?thesis by (simp add: deleted_at_kept_CreateMessage)
  next
    case (W_MarkMessageAsRead err g messageID userID)
    then show ?thesis by (simp add: deleted_at_kept_MarkMessageAsRead)
  next
    case (W_UpdateMessage err g messageID userID newContent)
    then show ?thesis by (simp add: deleted_at_kept_UpdateMessage)
  next
    case (W_DeleteMessage err messageID userID)
    then show ?thesis by (simp add: deleted_at_kept_DeleteMessage)
  qed
qed

theorem DeleteMessage_hard_delete_witness:
  "distinct (map ID (messages ex_history))
   \<and> DeleteMessage False ex_history 4 3 = (False, snd (DeleteMessage False ex_history 4 3))
   \<and> \<not> message_exists (snd (DeleteMessage False ex_history 4 3)) 4
   \<and> map ID (messages (snd (DeleteMessage False ex_history 4 3))) = [1, 2, 3, 5]
   \<and> map DeletedAt (messages (snd (DeleteMessage False ex_history 4 3))) = [None, None, Some 25, None]"
proof -
  have a: "distinct (map ID (messages ex_history))" by code_simp
  have b: "fst (DeleteMessage False ex_history 4 3) = False" by code_simp
  have c: "DeleteMessage False ex_history 4 3 = (False, snd (DeleteMessage False ex_history 4 3))"
    using b by (metis prod.collapse)
  have d: "map ID (messages (snd (DeleteMessage False ex_history 4 3))) = [1, 2, 3, 5]" by code_simp
  have e: "map DeletedAt (messages (snd (DeleteMessage False ex_history 4 3))) = [None, None, Some 25, None]"
    by code_simp
  have f: "\<not> message_exists (snd (DeleteMessage False ex_history 4 3)) 4"
    using DeleteMessage_hard_delete [THEN conjunct1, rule_format, OF conjI [OF a c]] ..
  show ?thesis by (intro conjI a c d e f)
qed

section \<open>Properties of UpdateUser\<close>

text \<open>
  Claim C10. \<open>UpdateUser\<close> does not use its nickname argument: the outcome is the same
  for any two. It changes no table but \<open>users\<close>; every row that was there keeps its
  place, and is either unchanged or had a null email and differs in the email alone, so
  the stored nickname and username never change; at most one row is added.
\<close>

theorem UpdateUser_ignores_nickname:
  "UpdateUser err dflt d ident email nickname = UpdateUser err dflt d ident email nickname'
   \<and> (snd (UpdateUser err dflt d ident email nickname))\<lparr>users := users d\<rparr> = d
   \<and> list_all2 (\<lambda>u u'. u' = u \<or> (Email u = None \<and> u' = u\<lparr>Email := email\<rparr>))
        (users d) (take (length (users d)) (users (snd (UpdateUser err dflt d ident email nickname))))
   \<and> map Nickname (take (length (users d)) (users (snd (UpdateUser err dflt d ident email nickname))))
        = map Nickname (users d)
   \<and> map Username (take (length (users d)) (users (snd (UpdateUser err dflt d ident email nickname))))
        = map Username (users d)
   \<and> length (users (snd (UpdateUser err dflt d ident email nickname))) \<le> length (users d) + 1"
proof -
  have R: "list_all2 (\<lambda>u u'. u' = u \<or> (Email u = None \<and> u' = u\<lparr>Email := email\<rparr>)) xs
             (map (\<lambda>u. if user_ID u = ident then u\<lparr>Email := COALESCE (Email u) email\<rparr> else u) xs)" for xs
    by (induction xs) (auto simp: COALESCE_def split: option.splits)
  have N: "map Nickname (map (\<lambda>u. if user_ID u = ident then u\<lparr>Email := COALESCE (Email u) email\<rparr> else u) xs)
             = map Nickname xs" for xs
    by (induction xs) auto
  have U: "map Username (map (\<lambda>u. if user_ID u = ident then u\<lparr>Email := COALESCE (Email u) email\<rparr> else u) xs)
             = map Username xs" for xs
    by (induction xs) auto
  have I: "list_all2 (\<lambda>u u'. u' = u \<or> (Email u = None \<and> u' = u\<lparr>Email := email\<rparr>)) xs xs" for xs
    by (simp add: list_all2_same)
  show ?thesis
    using R [of "users d"] N [of "users d"] U [of "users d"] I [of "users d"]
    by (simp add: UpdateUser_def UpsertUser_def)
qed

section \<open>The hub on reconnection\<close>

text \<open>
  Claim C1 fails on the code. The \<open>register\<close> case inserts the new handle and never
  looks for a prior one. When user 1 connects as client 1 and then as client 2, client 1 is
  still in \<open>clients\<close> and in room 9, its queue is open, and a frame broadcast to room 9
  is put on the queues of both clients. When client 1 later unregisters, the entry of user
  1 in \<open>userClients\<close>, by then client 2, is deleted, though client 2 stays connected.
\<close>

theorem register_keeps_prior_handle:
  "clients ex_reconnected = [2, 1]
   \<and> userClients ex_reconnected 1 = Some 2
   \<and> hub_rooms ex_reconnected 9 = Some [2, 1]
   \<and> client_rooms (heap ex_reconnected 1) = [9]
   \<and> send_closed (heap ex_reconnected 1) = False
   \<and> send (heap (Run_step ex_rooms_of ex_reconnected (broadcast 9 ''frame'')) 1) = [''frame'']
   \<and> send (heap (Run_step ex_rooms_of ex_reconnected (broadcast 9 ''frame'')) 2) = [''frame'']
   \<and> clients (Run_step ex_rooms_of ex_reconnected (unregister 1)) = [2]
   \<and> userClients (Run_step ex_rooms_of ex_reconnected (unregister 1)) 1 = None"
  by code_simp

section \<open>The dispatcher on its membership check and on a zero message uid\<close>

text \<open>
  Claim C4 fails on the code for \<open>WebRTCSignal\<close>. User 2 is not a member of room 9.
  Its \<open>WebRTCSignal\<close> for room 9 is dropped with no frame at all, where its
  \<open>MsgSend\<close>, \<open>MsgEdit\<close>, \<open>MsgDelete\<close> and \<open>MsgRead\<close> for the same room each
  send it the error frame; none of the five changes the store.
\<close>

theorem WebRTCSignal_non_member_gets_no_error:
  "IsUserInRoom False ex_store 2 9 = (False, False)
   \<and> ProcessIncomingPacket ex_lib no_dispatch_faults ex_gen ex_store 2
        \<lparr>Op = OpWebRTCSignal, Payload = [uuid_String 9, ''sdp'']\<rparr> = (ex_store, [])
   \<and> ProcessIncomingPacket ex_lib no_dispatch_faults ex_gen ex_store 2
        \<lparr>Op = OpMsgSend, Payload = [uuid_String 9, uuid_String 7, ''hello'']\<rparr> =
       (ex_store, [SendToUser 2 (Build OpError [''Not a member of this room''])])
   \<and> ProcessIncomingPacket ex_lib no_dispatch_faults ex_gen ex_store 2
        \<lparr>Op = OpMsgEdit, Payload = [''1'', uuid_String 9, ''hello'']\<rparr> =
       (ex_store, [SendToUser 2 (Build OpError [''Not a member of this room''])])
   \<and> ProcessIncomingPacket ex_lib no_dispatch_faults ex_gen ex_store 2
        \<lparr>Op = OpMsgDelete, Payload = [''1'', uuid_String 9]\<rparr> =
       (ex_store, [SendToUser 2 (Build OpError [''Not a member of this room''])])
   \<and> ProcessIncomingPacket ex_lib no_dispatch_faults ex_gen ex_store 2
        \<lparr>Op = OpMsgRead, Payload = [''1'', uuid_String 9]\<rparr> =
       (ex_store, [SendToUser 2 (Build OpError [''Not a member of this room''])])"
  by code_simp

text \<open>
  Claim C7 fails on the code. User 1, a member of room 9, sends a message whose
  \<open>client_msg_uid\<close> is the zero uuid. The row is stored with the zero uuid as its
  \<open>message_uid\<close> and the zero uuid is broadcast; the uuid the store would generate is not
  used. A second such send is rejected by the \<open>UNIQUE\<close> constraint: no row is added and
  nothing is broadcast.
\<close>

theorem MsgSend_zero_uid_is_stored:
  "map MessageUID (messages (fst (ProcessIncomingPacket ex_lib no_dispatch_faults ex_gen ex_store 1
      \<lparr>Op = OpMsgSend, Payload = [uuid_String 9, uuid_String uuid_Nil, ''hello'']\<rparr>))) = [uuid_Nil]
   \<and> snd (ProcessIncomingPacket ex_lib no_dispatch_faults ex_gen ex_store 1
      \<lparr>Op = OpMsgSend, Payload = [uuid_String 9, uuid_String uuid_Nil, ''hello'']\<rparr>) =
       [BroadcastToRoom 9
          (Build OpMsgDeliver
             [''1'', uuid_String uuid_Nil, uuid_String 9, uuid_String 1, ''10'', ''hello''])]
   \<and> map MessageUID (messages (fst (ProcessIncomingPacket ex_lib no_dispatch_faults (ex_gen\<lparr>new_uuid := 8\<rparr>)
        (fst (ProcessIncomingPacket ex_lib no_dispatch_faults ex_gen ex_store 1
           \<lparr>Op = OpMsgSend, Payload = [uuid_String 9, uuid_String uuid_Nil, ''hello'']\<rparr>)) 1
        \<lparr>Op = OpMsgSend, Payload = [uuid_String 9, uuid_String uuid_Nil, ''again'']\<rparr>))) = [uuid_Nil]
   \<and> snd (ProcessIncomingPacket ex_lib no_dispatch_faults (ex_gen\<lparr>new_uuid := 8\<rparr>)
        (fst (ProcessIncomingPacket ex_lib no_dispatch_faults ex_gen ex_store 1
           \<lparr>Op = OpMsgSend, Payload = [uuid_String 9, uuid_String uuid_Nil, ''hello'']\<rparr>)) 1
        \<lparr>Op = OpMsgSend, Payload = [uuid_String 9, uuid_String uuid_Nil, ''again'']\<rparr>) = []"
  by code_simp

end
